theory Spec2Isabelle
  imports Complex_Main
begin

section \<open>JavaScript values\<close>

text \<open>
  The values that cross the tool boundary of tooled-prompt: what \<^verbatim>\<open>JSON.parse\<close> produces,
  what a tool function returns, and what the structured-output store keeps.
  \<^item> \<open>Undefined\<close> and \<open>Null\<close> are JavaScript's two empty values;
  \<^item> \<open>Num\<close> holds the integer-valued numbers (floating point is outside this development);
  \<^item> \<open>Obj\<close> is a plain object as the list of its own enumerable properties in
    \<^verbatim>\<open>Object.keys\<close> order; inherited properties (the prototype chain) are not modelled;
  \<^item> \<open>Iter\<close> and \<open>AsyncIter\<close> are objects that are sync resp. async iterable but are
    neither strings nor arrays (a generator, a \<^verbatim>\<open>Set\<close>), given by the finite sequence
    of items they yield; they have no own enumerable properties.
  Functions, symbols, bigints and cyclic objects are not represented.
\<close>

datatype jsval =
    Undefined
  | Null
  | Bool bool
  | Num int
  | Str string
  | Arr "jsval list"
  | Obj "(string \<times> jsval) list"
  | Iter "jsval list"
  | AsyncIter "jsval list"

text \<open>\<^verbatim>\<open>typeof v\<close>.\<close>

fun typeof :: "jsval \<Rightarrow> string" where
  "typeof Undefined = ''undefined''"
| "typeof Null = ''object''"
| "typeof (Bool b) = ''boolean''"
| "typeof (Num n) = ''number''"
| "typeof (Str s) = ''string''"
| "typeof (Arr xs) = ''object''"
| "typeof (Obj kvs) = ''object''"
| "typeof (Iter xs) = ''object''"
| "typeof (AsyncIter xs) = ''object''"


text \<open>
  \<^verbatim>\<open>obj[key]\<close> on the own properties of an object, and \<^verbatim>\<open>obj[key] = v\<close>, which
  overwrites an existing property in place and appends a new one.
\<close>

fun obj_get :: "(string \<times> jsval) list \<Rightarrow> string \<Rightarrow> jsval" where
  "obj_get [] k = Undefined"
| "obj_get ((k', v) # kvs) k = (if k' = k then v else obj_get kvs k)"

fun obj_set :: "(string \<times> 'a) list \<Rightarrow> string \<Rightarrow> 'a \<Rightarrow> (string \<times> 'a) list" where
  "obj_set [] k v = [(k, v)]"
| "obj_set ((k', v') # kvs) k v = (if k' = k then (k, v) # kvs else (k', v') # obj_set kvs k v)"

subsection \<open>\<^verbatim>\<open>JSON.stringify\<close>\<close>

definition dq :: char where
  "dq = CHR 0x22"

definition backslash :: char where
  "backslash = CHR 0x5C"

fun digits :: "nat \<Rightarrow> string" where
  "digits n =
     (if n < 10 then [''0123456789'' ! n]
      else digits (n div 10) @ [''0123456789'' ! (n mod 10)])"

declare digits.simps [simp del]

definition show_int :: "int \<Rightarrow> string" where
  "show_int i = (if i < 0 then ''-'' @ digits (nat (- i)) else digits (nat i))"

definition hex_digit :: "nat \<Rightarrow> char" where
  "hex_digit n = ''0123456789abcdef'' ! n"

text \<open>The escape of one character inside a JSON string literal.\<close>

definition quote_char :: "char \<Rightarrow> string" where
  "quote_char c =
     (if c = dq then [backslash, dq]
      else if c = backslash then [backslash, backslash]
      else if c = CHR 0x08 then [backslash, CHR ''b'']
      else if c = CHR 0x0C then [backslash, CHR ''f'']
      else if c = CHR 0x0A then [backslash, CHR ''n'']
      else if c = CHR 0x0D then [backslash, CHR ''r'']
      else if c = CHR 0x09 then [backslash, CHR ''t'']
      else if (of_char c :: nat) < 32
        then [backslash, CHR ''u'', CHR ''0'', CHR ''0'',
              hex_digit (of_char c div 16), hex_digit (of_char c mod 16)]
      else [c])"

definition quote :: "string \<Rightarrow> string" where
  "quote s = [dq] @ concat (map quote_char s) @ [dq]"

fun join :: "string \<Rightarrow> string list \<Rightarrow> string" where
  "join sep [] = []"
| "join sep [x] = x"
| "join sep (x # y # ys) = x @ sep @ join sep (y # ys)"

text \<open>
  The serialisation of \<^verbatim>\<open>JSON.stringify(value, null, gap)\<close>: \<open>None\<close> is JavaScript's
  \<^verbatim>\<open>undefined\<close>, which is what \<^verbatim>\<open>JSON.stringify(undefined)\<close> returns. Inside an array
  an undefined element is written \<^verbatim>\<open>null\<close>; inside an object a property whose value is
  undefined is left out. An empty \<open>gap\<close> gives the compact form.
\<close>

definition wrap :: "string \<Rightarrow> string \<Rightarrow> string \<Rightarrow> string \<Rightarrow> string list \<Rightarrow> string" where
  "wrap opening closing gap indent partial =
     (if partial = [] then opening @ closing
      else if gap = [] then opening @ join '','' partial @ closing
      else opening @ [CHR 0x0A] @ indent @ gap
             @ join ('','' @ [CHR 0x0A] @ indent @ gap) partial
             @ [CHR 0x0A] @ indent @ closing)"

fun serialize :: "string \<Rightarrow> string \<Rightarrow> jsval \<Rightarrow> string option" where
  "serialize gap indent Undefined = None"
| "serialize gap indent Null = Some ''null''"
| "serialize gap indent (Bool b) = Some (if b then ''true'' else ''false'')"
| "serialize gap indent (Num n) = Some (show_int n)"
| "serialize gap indent (Str s) = Some (quote s)"
| "serialize gap indent (Arr xs) =
     Some (wrap ''['' '']'' gap indent
       (map (\<lambda>x. case serialize gap (indent @ gap) x of None \<Rightarrow> ''null'' | Some s \<Rightarrow> s) xs))"
| "serialize gap indent (Obj kvs) =
     Some (wrap ''{'' ''}'' gap indent
       (concat (map (\<lambda>(k, v). case serialize gap (indent @ gap) v of
                       None \<Rightarrow> []
                     | Some s \<Rightarrow> [quote k @ '':'' @ (if gap = [] then [] else '' '') @ s]) kvs)))"
| "serialize gap indent (Iter xs) = Some ''{}''"
| "serialize gap indent (AsyncIter xs) = Some ''{}''"

definition JSON_stringify :: "jsval \<Rightarrow> string option" where
  "JSON_stringify v = serialize [] [] v"

definition JSON_stringify_pretty :: "jsval \<Rightarrow> string option" where
  "JSON_stringify_pretty v = serialize ''  '' [] v"

text \<open>A value known to be defined, serialised: the string, and the empty string for \<open>None\<close>.\<close>

definition str_of :: "string option \<Rightarrow> string" where
  "str_of r = (case r of None \<Rightarrow> [] | Some s \<Rightarrow> s)"

section \<open>Tools, tool calls and tool results\<close>

text \<open>
  \<^verbatim>\<open>JsonSchema\<close> of \<^verbatim>\<open>types.ts\<close>: the \<^verbatim>\<open>properties\<close> of an object schema in
  \<^verbatim>\<open>Object.keys\<close> order (absent when the schema has none) and its \<^verbatim>\<open>required\<close> list.
\<close>

record json_schema =
  schema_type :: string
  properties :: "(string \<times> jsval) list option"
  required :: "string list option"

record tool_metadata =
  tool_name :: string
  tool_description :: string
  parameters :: json_schema

text \<open>\<^verbatim>\<open>ToolCallInfo\<close> and \<^verbatim>\<open>ToolResultInfo\<close> of \<^verbatim>\<open>providers/types.ts\<close>.\<close>

record tool_call_info =
  tc_id :: string
  tc_name :: string
  tc_arguments :: string

record tool_result_info =
  tr_id :: string
  tr_name :: string
  tr_result :: string

text \<open>
  A tool function runs on its positional arguments and on the world \<open>'w\<close> it can change
  (the slot of a store, a file system); it returns a value or throws an error, of which
  the loop reads the message.
\<close>

type_synonym 'w tool_impl = "jsval list \<Rightarrow> 'w \<Rightarrow> (string + jsval) \<times> 'w"

record 'w tool_function =
  tool_meta :: tool_metadata
  tool_impl :: "'w tool_impl"

text \<open>
  \<^verbatim>\<open>resolveIterableResult\<close>: strings, arrays and the empty values pass through, an async
  iterable and then a sync iterable are collected into an array.
\<close>

fun resolveIterableResult :: "jsval \<Rightarrow> jsval" where
  "resolveIterableResult (AsyncIter items) = Arr items"
| "resolveIterableResult (Iter items) = Arr items"
| "resolveIterableResult result = result"

text \<open>
  The string the loop makes of a resolved tool result (\<^verbatim>\<open>resultStr\<close>). The last branch
  is \<^verbatim>\<open>JSON.stringify(result)\<close>, which is a string for every value but \<open>Undefined\<close>.
\<close>

definition result_string :: "jsval \<Rightarrow> string" where
  "result_string result =
     (if result = Undefined \<or> result = Null then ''OK''
      else case result of
          Str s \<Rightarrow> s
        | _ \<Rightarrow> str_of (JSON_stringify result))"

text \<open>
  Truncation under \<^verbatim>\<open>config.maxToolResultLength\<close>; an unset limit and the limit 0 are
  both falsy and leave the string as it is.
\<close>

definition truncate_result :: "nat option \<Rightarrow> string \<Rightarrow> string" where
  "truncate_result maxToolResultLength resultStr =
     (case maxToolResultLength of
        None \<Rightarrow> resultStr
      | Some m \<Rightarrow>
          if m \<noteq> 0 \<and> length resultStr > m
          then take m resultStr @ [CHR 0x0A] @ ''... (truncated, ''
                 @ digits (length resultStr) @ '' total chars)''
          else resultStr)"

definition error_payload :: "string \<Rightarrow> string" where
  "error_payload msg = str_of (JSON_stringify (Obj [(''error'', Str msg)]))"

text \<open>
  \<^verbatim>\<open>paramNames.map((name) => input[name])\<close>. Reading a property of \<^verbatim>\<open>null\<close> throws a
  TypeError; of a plain object it gives the property or \<^verbatim>\<open>undefined\<close>. For the other
  values \<^verbatim>\<open>JSON.parse\<close> can produce (numbers, booleans, strings, arrays) the read is
  taken to give \<^verbatim>\<open>undefined\<close>: their indices and \<^verbatim>\<open>length\<close> are not modelled.
\<close>

definition input_get :: "jsval \<Rightarrow> string \<Rightarrow> string + jsval" where
  "input_get input nm =
     (case input of
        Obj kvs \<Rightarrow> Inr (obj_get kvs nm)
      | Null \<Rightarrow> Inl (''Cannot read properties of null (reading '' @ [CHR 0x27] @ nm @ [CHR 0x27] @ '')'')
      | Undefined \<Rightarrow> Inl (''Cannot read properties of undefined (reading '' @ [CHR 0x27] @ nm @ [CHR 0x27] @ '')'')
      | _ \<Rightarrow> Inr Undefined)"

fun map_args :: "jsval \<Rightarrow> string list \<Rightarrow> string + jsval list" where
  "map_args input [] = Inr []"
| "map_args input (nm # nms) =
     (case input_get input nm of
        Inl e \<Rightarrow> Inl e
      | Inr v \<Rightarrow> (case map_args input nms of Inl e \<Rightarrow> Inl e | Inr vs \<Rightarrow> Inr (v # vs)))"

text \<open>\<^verbatim>\<open>Object.keys(toolFn[TOOL_SYMBOL].parameters.properties || {})\<close>.\<close>

definition paramNames :: "tool_metadata \<Rightarrow> string list" where
  "paramNames m = (case properties (parameters m) of None \<Rightarrow> [] | Some ps \<Rightarrow> map fst ps)"

text \<open>
  The body of the \<^verbatim>\<open>for (const toolCall of toolCalls)\<close> loop of \<^verbatim>\<open>runToolLoop\<close>: one
  tool call gives one tool result. \<open>parse\<close> is \<^verbatim>\<open>JSON.parse\<close>, a built-in taken as a
  parameter: \<open>Inl\<close> the message of the SyntaxError it throws, \<open>Inr\<close> the value.
\<close>

definition exec_tool_call ::
  "(string \<Rightarrow> string + jsval) \<Rightarrow> nat option \<Rightarrow> 'w tool_function list \<Rightarrow> tool_call_info \<Rightarrow> 'w
     \<Rightarrow> tool_result_info \<times> 'w" where
  "exec_tool_call parse maxToolResultLength tools toolCall w =
     (case find (\<lambda>t. tool_name (tool_meta t) = tc_name toolCall) tools of
        None \<Rightarrow>
          (\<lparr>tr_id = tc_id toolCall, tr_name = tc_name toolCall,
            tr_result = error_payload (''Unknown tool: '' @ tc_name toolCall)\<rparr>, w)
      | Some toolFn \<Rightarrow>
          (case parse (tc_arguments toolCall) of
             Inl msg \<Rightarrow>
               (\<lparr>tr_id = tc_id toolCall, tr_name = tc_name toolCall,
                 tr_result = error_payload (''Invalid JSON arguments: '' @ msg)\<rparr>, w)
           | Inr input \<Rightarrow>
               (case map_args input (paramNames (tool_meta toolFn)) of
                  Inl msg \<Rightarrow>
                    (\<lparr>tr_id = tc_id toolCall, tr_name = tc_name toolCall,
                      tr_result = error_payload msg\<rparr>, w)
                | Inr args \<Rightarrow>
                    (case tool_impl toolFn args w of
                       (Inl msg, w') \<Rightarrow>
                         (\<lparr>tr_id = tc_id toolCall, tr_name = tc_name toolCall,
                           tr_result = error_payload msg\<rparr>, w')
                     | (Inr rawResult, w') \<Rightarrow>
                         (\<lparr>tr_id = tc_id toolCall, tr_name = tc_name toolCall,
                           tr_result = truncate_result maxToolResultLength
                             (result_string (resolveIterableResult rawResult))\<rparr>, w')))))"

fun exec_tool_calls ::
  "(string \<Rightarrow> string + jsval) \<Rightarrow> nat option \<Rightarrow> 'w tool_function list \<Rightarrow> tool_call_info list \<Rightarrow> 'w
     \<Rightarrow> tool_result_info list \<times> 'w" where
  "exec_tool_calls parse mx tools [] w = ([], w)"
| "exec_tool_calls parse mx tools (toolCall # rest) w =
     (case exec_tool_call parse mx tools toolCall w of
        (r, w') \<Rightarrow> (case exec_tool_calls parse mx tools rest w' of (rs, w'') \<Rightarrow> (r # rs, w'')))"

section \<open>The provider interface\<close>

text \<open>\<^verbatim>\<open>ContentPart\<close> and \<^verbatim>\<open>PromptContent\<close> of \<^verbatim>\<open>types.ts\<close>.\<close>

datatype content_part = TextPart string | ImageUrlPart string

datatype prompt_content = Text string | Parts "content_part list"

text \<open>
  \<^verbatim>\<open>ResolvedSchema\<close>: a JSON schema and a validator that returns the parsed value or
  throws (\<open>Inl\<close> the message).
\<close>

record resolved_schema =
  jsonSchema :: json_schema
  schema_parse :: "jsval \<Rightarrow> string + jsval"

text \<open>
  \<^verbatim>\<open>BuildRequestParams\<close>. The type \<open>'a\<close> of \<open>bp_messages\<close> is how the caller hands the
  message history over: the list of messages where only its content matters, the address
  of the array where the identity of the array matters.
\<close>

record 'a build_request_params =
  bp_apiUrl :: string
  bp_apiKey :: "string option"
  bp_modelName :: string
  bp_messages :: 'a
  bp_tools :: "tool_metadata list"
  bp_stream :: bool
  bp_temperature :: "real option"
  bp_maxTokens :: "nat option"
  bp_systemPrompt :: "prompt_content option"
  bp_schema :: "json_schema option"

text \<open>\<^verbatim>\<open>ParsedResponse\<close>.\<close>

record parsed_response =
  pr_content :: string
  pr_toolCalls :: "tool_call_info list"

text \<open>
  \<^verbatim>\<open>ProviderAdapter\<close>: \<open>'msg\<close> is the provider's message type, \<open>'req\<close> the request it
  builds and \<open>'resp\<close> what it reads from the HTTP response. \<open>parseResponse\<close> returns the
  parsed response or throws. The event emitter and the console are not modelled.
\<close>

record ('msg, 'req, 'resp) provider_adapter =
  buildRequest :: "'msg list build_request_params \<Rightarrow> 'req"
  formatUserMessage :: "prompt_content \<Rightarrow> content_part list option \<Rightarrow> 'msg"
  formatAssistantMessage :: "string \<Rightarrow> tool_call_info list \<Rightarrow> 'msg"
  formatToolResults :: "tool_result_info list \<Rightarrow> 'msg list"
  parseResponse :: "'resp \<Rightarrow> bool \<Rightarrow> string + parsed_response"

section \<open>The tool loop\<close>

text \<open>The fields of \<^verbatim>\<open>ResolvedTooledPromptConfig\<close> that \<^verbatim>\<open>runToolLoop\<close> reads.\<close>

record config =
  apiUrl :: string
  modelName :: string
  apiKey :: "string option"
  maxIterations :: "nat option"
  stream :: bool
  timeout :: nat
  temperature :: "real option"
  maxTokens :: "nat option"
  maxToolResultLength :: "nat option"

text \<open>
  What \<^verbatim>\<open>fetch\<close> does with one request: it is aborted by the timeout, it fails with
  another error, or it gives a response with its \<^verbatim>\<open>ok\<close> flag, status and text, and the
  payload the provider parses.
\<close>

record 'resp http_response =
  resp_ok :: bool
  resp_status :: nat
  resp_text :: string
  resp_payload :: 'resp

datatype 'resp fetch_outcome =
    AbortError
  | FetchError string
  | Response "'resp http_response"

text \<open>
  The platform the loop runs on: \<^verbatim>\<open>fetch\<close>, which reads and changes the world (the
  model's side of the conversation is part of it), and \<^verbatim>\<open>JSON.parse\<close>.
\<close>

record ('req, 'resp, 'w) platform =
  fetch :: "'req \<Rightarrow> 'w \<Rightarrow> 'resp fetch_outcome \<times> 'w"
  JSON_parse :: "string \<Rightarrow> string + jsval"

text \<open>The errors \<^verbatim>\<open>runToolLoop\<close> throws, and their messages.\<close>

datatype loop_error =
    RequestTimeout nat
  | FetchFailure string
  | RequestFailed nat string
  | ParseResponseFailure string
  | JsonParseFailure string string
  | SchemaValidationFailure string jsval
  | MaxIterationsReached nat

fun error_message :: "loop_error \<Rightarrow> string" where
  "error_message (RequestTimeout ms) = ''Request timeout after '' @ digits ms @ ''ms''"
| "error_message (FetchFailure msg) = msg"
| "error_message (RequestFailed status txt) =
     ''LLM request failed ('' @ digits status @ ''): '' @ txt"
| "error_message (ParseResponseFailure msg) = msg"
| "error_message (JsonParseFailure msg content) =
     ''Failed to parse JSON response: '' @ msg @ [CHR 0x0A, CHR 0x0A] @ ''Raw content:''
       @ [CHR 0x0A] @ content"
| "error_message (SchemaValidationFailure msg parsed) =
     ''Schema validation failed: '' @ msg @ [CHR 0x0A, CHR 0x0A] @ ''Parsed JSON:''
       @ [CHR 0x0A] @ str_of (JSON_stringify_pretty parsed)"
| "error_message (MaxIterationsReached n) =
     ''Max iterations ('' @ digits n @ '') reached without completion''"

text \<open>
  The variables of the loop: the message history, the iteration counter and the world.
  \<open>sent\<close> is not a variable of the source: it records the requests handed to
  \<^verbatim>\<open>fetch\<close>, in order, so that round-trips can be counted.
\<close>

record ('msg, 'req, 'w) loop_state =
  messages :: "'msg list"
  iterations :: nat
  world :: 'w
  sent :: "'req list"

text \<open>One pass through the body of the \<^verbatim>\<open>while\<close> loop either ends the loop or goes on.\<close>

datatype 's step =
    Done "loop_error + jsval" 's
  | Continue 's

text \<open>\<^verbatim>\<open>rawToolCalls.filter((tc) => tc.id && tc.name)\<close>.\<close>

definition complete :: "tool_call_info \<Rightarrow> bool" where
  "complete tc = (tc_id tc \<noteq> [] \<and> tc_name tc \<noteq> [])"

text \<open>
  The part of the loop body after \<^verbatim>\<open>provider.parseResponse\<close>: the terminal turn when no
  complete tool call is left, the execution of the batch and the check of the return
  store otherwise. The return store is given by its \<^verbatim>\<open>get\<close>, which reads the world.
\<close>

definition handle_response ::
  "('req, 'resp, 'w) platform \<Rightarrow> ('msg, 'req, 'resp) provider_adapter \<Rightarrow> config
     \<Rightarrow> 'w tool_function list \<Rightarrow> resolved_schema option \<Rightarrow> ('w \<Rightarrow> jsval) option
     \<Rightarrow> parsed_response \<Rightarrow> ('msg, 'req, 'w) loop_state \<Rightarrow> ('msg, 'req, 'w) loop_state step" where
  "handle_response pf provider cfg tools schema returnStore pr st =
     (let content = pr_content pr;
          toolCalls = filter complete (pr_toolCalls pr)
      in if toolCalls = [] then
           (let st' = st\<lparr>messages := messages st @ [formatAssistantMessage provider content []]\<rparr>
            in case schema of
                 Some sch \<Rightarrow>
                   (case JSON_parse pf content of
                      Inl msg \<Rightarrow> Done (Inl (JsonParseFailure msg content)) st'
                    | Inr parsed \<Rightarrow>
                        (case schema_parse sch parsed of
                           Inl msg \<Rightarrow> Done (Inl (SchemaValidationFailure msg parsed)) st'
                         | Inr v \<Rightarrow> Done (Inr v) st'))
               | None \<Rightarrow> Done (Inr (Str content)) st')
         else
           (case exec_tool_calls (JSON_parse pf) (maxToolResultLength cfg) tools toolCalls (world st) of
              (toolResults, w') \<Rightarrow>
                (let st' = st\<lparr>messages := messages st
                                  @ [formatAssistantMessage provider content toolCalls]
                                  @ formatToolResults provider toolResults,
                               world := w'\<rparr>
                 in case returnStore of
                      Some get \<Rightarrow>
                        (let val = get w'
                         in if val \<noteq> Undefined then Done (Inr val) st'
                            else Continue (st'\<lparr>iterations := iterations st' + 1\<rparr>))
                    | None \<Rightarrow> Continue (st'\<lparr>iterations := iterations st' + 1\<rparr>))))"

text \<open>The parameters the loop hands to \<^verbatim>\<open>provider.buildRequest\<close>.\<close>

definition request_params ::
  "config \<Rightarrow> 'w tool_function list \<Rightarrow> resolved_schema option \<Rightarrow> prompt_content option
     \<Rightarrow> 'msg list \<Rightarrow> 'msg list build_request_params" where
  "request_params cfg tools schema systemPrompt msgs =
     \<lparr>bp_apiUrl = apiUrl cfg, bp_apiKey = apiKey cfg, bp_modelName = modelName cfg,
      bp_messages = msgs, bp_tools = map tool_meta tools,
      bp_stream = stream cfg, bp_temperature = temperature cfg,
      bp_maxTokens = maxTokens cfg, bp_systemPrompt = systemPrompt,
      bp_schema = map_option jsonSchema schema\<rparr>"

text \<open>The body of the \<^verbatim>\<open>while\<close> loop: build the request, fetch, parse, handle.\<close>

definition loop_body ::
  "('req, 'resp, 'w) platform \<Rightarrow> ('msg, 'req, 'resp) provider_adapter \<Rightarrow> config
     \<Rightarrow> 'w tool_function list \<Rightarrow> resolved_schema option \<Rightarrow> ('w \<Rightarrow> jsval) option
     \<Rightarrow> prompt_content option
     \<Rightarrow> ('msg, 'req, 'w) loop_state \<Rightarrow> ('msg, 'req, 'w) loop_state step" where
  "loop_body pf provider cfg tools schema returnStore systemPrompt st =
     (let req = buildRequest provider (request_params cfg tools schema systemPrompt (messages st))
      in case fetch pf req (world st) of
           (outcome, w1) \<Rightarrow>
             (let st1 = st\<lparr>world := w1, sent := sent st @ [req]\<rparr>
              in case outcome of
                   AbortError \<Rightarrow> Done (Inl (RequestTimeout (timeout cfg))) st1
                 | FetchError msg \<Rightarrow> Done (Inl (FetchFailure msg)) st1
                 | Response response \<Rightarrow>
                     if \<not> resp_ok response
                     then Done (Inl (RequestFailed (resp_status response) (resp_text response))) st1
                     else (case parseResponse provider (resp_payload response) (stream cfg) of
                             Inl msg \<Rightarrow> Done (Inl (ParseResponseFailure msg)) st1
                           | Inr pr \<Rightarrow>
                               handle_response pf provider cfg tools schema returnStore pr st1)))"

text \<open>
  The \<^verbatim>\<open>while\<close> loop with the \<^verbatim>\<open>throw\<close> that follows it. The loop need not end (no cap
  and a model that asks for tools for ever), so it runs on fuel, one unit per pass:
  \<open>None\<close> says the fuel ran out before the loop ended.
\<close>

fun run_loop ::
  "nat \<Rightarrow> ('req, 'resp, 'w) platform \<Rightarrow> ('msg, 'req, 'resp) provider_adapter \<Rightarrow> config
     \<Rightarrow> 'w tool_function list \<Rightarrow> resolved_schema option \<Rightarrow> ('w \<Rightarrow> jsval) option
     \<Rightarrow> prompt_content option
     \<Rightarrow> ('msg, 'req, 'w) loop_state \<Rightarrow> ((loop_error + jsval) \<times> ('msg, 'req, 'w) loop_state) option" where
  "run_loop fuel pf provider cfg tools schema returnStore systemPrompt st =
     (if (case maxIterations cfg of None \<Rightarrow> True | Some cap \<Rightarrow> iterations st < cap) then
        (case fuel of
           0 \<Rightarrow> None
         | Suc fuel' \<Rightarrow>
             (case loop_body pf provider cfg tools schema returnStore systemPrompt st of
                Done r st' \<Rightarrow> Some (r, st')
              | Continue st' \<Rightarrow>
                  run_loop fuel' pf provider cfg tools schema returnStore systemPrompt st'))
      else (case maxIterations cfg of
              Some cap \<Rightarrow> Some (Inl (MaxIterationsReached cap), st)
            | None \<Rightarrow> None))"

declare run_loop.simps [simp del]

text \<open>
  \<^verbatim>\<open>runToolLoop\<close>: the provider is the adapter \<^verbatim>\<open>getProvider(config.provider)\<close> found.
  The result is what the loop returns or throws, with the final state (its \<open>messages\<close>
  are the \<^verbatim>\<open>messages\<close> of the returned object).
\<close>

definition runToolLoop ::
  "nat \<Rightarrow> ('req, 'resp, 'w) platform \<Rightarrow> ('msg, 'req, 'resp) provider_adapter
     \<Rightarrow> prompt_content \<Rightarrow> 'w tool_function list \<Rightarrow> config
     \<Rightarrow> resolved_schema option \<Rightarrow> ('w \<Rightarrow> jsval) option
     \<Rightarrow> prompt_content option \<Rightarrow> content_part list option \<Rightarrow> 'msg list option \<Rightarrow> 'w
     \<Rightarrow> ((loop_error + jsval) \<times> ('msg, 'req, 'w) loop_state) option" where
  "runToolLoop fuel pf provider promptText tools cfg schema returnStore systemPrompt systemImages
       history w =
     run_loop fuel pf provider cfg tools schema returnStore systemPrompt
       \<lparr>messages = (case history of None \<Rightarrow> [] | Some h \<Rightarrow> h)
                     @ [formatUserMessage provider promptText systemImages],
        iterations = 0, world = w, sent = []\<rparr>"

section \<open>The schema resolver: flat string-map schemas\<close>

text \<open>
  A \<^verbatim>\<open>SimpleSchema\<close> is an object of descriptions, here the list of its entries in
  \<^verbatim>\<open>Object.keys\<close> order. A key that ends in \<^verbatim>\<open>?\<close> declares an optional field.
\<close>

type_synonym simple_schema = "(string \<times> string) list"

definition isOptional :: "string \<Rightarrow> bool" where
  "isOptional key = (key \<noteq> [] \<and> last key = CHR ''?'')"

definition cleanKey :: "string \<Rightarrow> string" where
  "cleanKey key = (if isOptional key then butlast key else key)"

text \<open>\<^verbatim>\<open>simpleSchemaToJsonSchema\<close>: the loop over the entries, then the schema.\<close>

fun simple_properties ::
  "simple_schema \<Rightarrow> (string \<times> jsval) list \<Rightarrow> string list \<Rightarrow> (string \<times> jsval) list \<times> string list" where
  "simple_properties [] props req = (props, req)"
| "simple_properties ((key, desc) # rest) props req =
     simple_properties rest
       (obj_set props (cleanKey key) (Obj [(''type'', Str ''string''), (''description'', Str desc)]))
       (if \<not> isOptional key then req @ [cleanKey key] else req)"

definition simpleSchemaToJsonSchema :: "simple_schema \<Rightarrow> json_schema" where
  "simpleSchemaToJsonSchema simple =
     (case simple_properties simple [] [] of
        (props, req) \<Rightarrow>
          \<lparr>schema_type = ''object'', properties = Some props,
           required = (if length req > 0 then Some req else None)\<rparr>)"

text \<open>
  \<^verbatim>\<open>createSimpleSchemaParser\<close>. The parser it returns throws (\<open>Inl\<close>) or returns the
  object of the declared fields that are present. \<open>check_fields\<close> is its loop over the
  fields, \<open>obj\<close> the own properties of the input and \<open>result\<close> the object built so far.
\<close>

fun check_fields ::
  "(string \<times> bool) list \<Rightarrow> (string \<times> jsval) list \<Rightarrow> (string \<times> jsval) list
     \<Rightarrow> string + (string \<times> jsval) list" where
  "check_fields [] obj result = Inr result"
| "check_fields ((ck, optional) # flds) obj result =
     (let val = obj_get obj ck
      in if val = Undefined \<or> val = Null then
           (if \<not> optional then Inl (''Missing required field: '' @ [dq] @ ck @ [dq])
            else check_fields flds obj result)
         else if typeof val \<noteq> ''string'' then
           Inl (''Field '' @ [dq] @ ck @ [dq] @ '' must be a string, got '' @ typeof val)
         else check_fields flds obj (obj_set result ck val))"

text \<open>The own enumerable properties of a value that passed the object test.\<close>

fun own_properties :: "jsval \<Rightarrow> (string \<times> jsval) list" where
  "own_properties (Obj kvs) = kvs"
| "own_properties v = []"

fun isArray :: "jsval \<Rightarrow> bool" where
  "isArray (Arr xs) = True"
| "isArray v = False"

definition createSimpleSchemaParser :: "simple_schema \<Rightarrow> jsval \<Rightarrow> string + jsval" where
  "createSimpleSchemaParser simple data =
     (let flds = map (\<lambda>key. (cleanKey key, isOptional key)) (map fst simple)
      in if data = Null \<or> typeof data \<noteq> ''object'' \<or> isArray data then Inl ''Expected an object''
         else (case check_fields flds (own_properties data) [] of
                 Inl msg \<Rightarrow> Inl msg
               | Inr result \<Rightarrow> Inr (Obj result)))"

text \<open>\<^verbatim>\<open>resolveSchema\<close> on a \<^verbatim>\<open>SimpleSchema\<close> (the path that needs no Zod).\<close>

definition resolveSchema :: "simple_schema \<Rightarrow> resolved_schema" where
  "resolveSchema simple =
     \<lparr>jsonSchema = simpleSchemaToJsonSchema simple,
      schema_parse = createSimpleSchemaParser simple\<rparr>"

section \<open>The structured-output store\<close>

text \<open>
  \<^verbatim>\<open>createStore\<close> closes over the variable \<^verbatim>\<open>stored\<close>, which is \<^verbatim>\<open>undefined\<close> or
  \<^verbatim>\<open>{ value }\<close>: the slot, of type \<open>jsval option\<close>, is the world the store's function
  runs on. \<open>reconstruct\<close> is the loop that rebuilds the object from the positional
  arguments.
\<close>

fun reconstruct :: "string list \<Rightarrow> jsval list \<Rightarrow> (string \<times> jsval) list \<Rightarrow> (string \<times> jsval) list" where
  "reconstruct [] args obj = obj"
| "reconstruct (k # ks) [] obj = obj"
| "reconstruct (k # ks) (a # args) obj =
     reconstruct ks args (if a \<noteq> Undefined then obj_set obj k a else obj)"

definition propKeys :: "resolved_schema \<Rightarrow> string list" where
  "propKeys schema = (case properties (jsonSchema schema) of None \<Rightarrow> [] | Some ps \<Rightarrow> map fst ps)"

definition store_fn :: "resolved_schema \<Rightarrow> jsval option tool_impl" where
  "store_fn schema args stored =
     (case schema_parse schema (Obj (reconstruct (propKeys schema) args [])) of
        Inl msg \<Rightarrow> (Inl msg, stored)
      | Inr result \<Rightarrow> (Inr (Str ''Value stored successfully''), Some result))"

definition store_get :: "jsval option \<Rightarrow> jsval" where
  "store_get stored = (case stored of None \<Rightarrow> Undefined | Some v \<Rightarrow> v)"

text \<open>The store as the loop sees it: a tool function, whose world is the slot.\<close>

definition createStore :: "string \<Rightarrow> resolved_schema \<Rightarrow> jsval option tool_function" where
  "createStore name schema =
     \<lparr>tool_meta = \<lparr>tool_name = name, tool_description = ''Store a structured value'',
                   parameters = jsonSchema schema\<rparr>,
      tool_impl = store_fn schema\<rparr>"

section \<open>Arrays on a heap\<close>

text \<open>
  \<^verbatim>\<open>buildRequest\<close> receives the array \<^verbatim>\<open>messages\<close> of the loop by reference. Where
  that matters, arrays live on a heap: the list of the arrays allocated so far, an
  address being an index into it. \<open>array_copy\<close> is \<^verbatim>\<open>[...xs]\<close>, a new array with the
  elements of the old one, and \<open>unshift\<close> is \<^verbatim>\<open>xs.unshift(x)\<close>, which changes the
  array in place.
\<close>

type_synonym 'm heap = "'m list list"

definition array_copy :: "'m heap \<Rightarrow> nat \<Rightarrow> 'm heap \<times> nat" where
  "array_copy h a = (h @ [h ! a], length h)"

definition unshift :: "'m heap \<Rightarrow> nat \<Rightarrow> 'm \<Rightarrow> 'm heap" where
  "unshift h a x = h[a := x # h ! a]"

text \<open>\<^verbatim>\<open>BuildRequestResult\<close>, with the body of each provider as its own record.\<close>

record 'b request =
  req_url :: string
  req_headers :: "(string \<times> string) list"
  req_body :: 'b

text \<open>A JSON schema as the JSON value that is sent.\<close>

definition schema_json :: "json_schema \<Rightarrow> jsval" where
  "schema_json s =
     Obj [(''type'', Str (schema_type s)),
          (''properties'', case properties s of None \<Rightarrow> Undefined | Some ps \<Rightarrow> Obj ps),
          (''required'', case required s of None \<Rightarrow> Undefined | Some r \<Rightarrow> Arr (map Str r))]"

subsection \<open>\<^verbatim>\<open>enforceAdditionalProperties\<close> (\<^verbatim>\<open>providers/utils.ts\<close>)\<close>

text \<open>\<^verbatim>\<open>{ ...node }\<close>: the own enumerable properties, the indices for an array.\<close>

fun spread :: "jsval \<Rightarrow> (string \<times> jsval) list" where
  "spread (Obj kvs) = kvs"
| "spread (Arr xs) = zip (map digits [0..<length xs]) xs"
| "spread v = []"

lemma obj_set_member:
  "(k, v) \<in> set (obj_set kvs k' v') \<Longrightarrow> (k, v) \<in> set kvs \<or> (k, v) = (k', v')"
  by (induction kvs) (auto split: if_splits)

lemma size_in_Arr: "v \<in> set xs \<Longrightarrow> size v < size (Arr xs)"
  by (simp add: less_Suc_eq_le size_list_estimation')

lemma size_in_Obj: "(k, v) \<in> set kvs \<Longrightarrow> size v < size (Obj kvs)"
proof -
  assume "(k, v) \<in> set kvs"
  moreover have "size v \<le> size_prod (\<lambda>_. 0) size (k, v)" by simp
  ultimately have "size v \<le> size_list (size_prod (\<lambda>_. 0) size) kvs"
    by (rule size_list_estimation')
  then show ?thesis by simp
qed

lemma size_spread: "(k, v) \<in> set (spread node) \<Longrightarrow> size v < size node"
proof (cases node)
  case (Arr xs)
  assume "(k, v) \<in> set (spread node)"
  then have "v \<in> set xs" using Arr by (auto dest: set_zip_rightD)
  then show ?thesis using Arr size_in_Arr by blast
next
  case (Obj kvs)
  assume "(k, v) \<in> set (spread node)"
  then have "(k, v) \<in> set kvs" using Obj by simp
  then show ?thesis using Obj size_in_Obj by blast
qed auto

lemma size_spread_item:
  "(k, Arr xs) \<in> set (spread node) \<Longrightarrow> x \<in> set xs \<Longrightarrow> size x < size node"
  using size_spread [of k "Arr xs" node] size_in_Arr [of x xs] by simp

function enforceAdditionalProperties :: "jsval \<Rightarrow> jsval" where
  "enforceAdditionalProperties node =
     (let result = spread node;
          result = (if obj_get result ''type'' = Str ''object''
                    then obj_set result ''additionalProperties'' (Bool False) else result)
      in Obj (map (\<lambda>(key, val).
                (key, case val of
                        Arr items \<Rightarrow>
                          Arr (map (\<lambda>item. if typeof item = ''object'' \<and> item \<noteq> Null
                                           then enforceAdditionalProperties item else item) items)
                      | _ \<Rightarrow> if typeof val = ''object'' \<and> val \<noteq> Null
                             then enforceAdditionalProperties val else val)) result))"
  by pat_completeness auto
termination
  by (relation "measure size")
     (auto split: if_splits dest!: obj_set_member dest: size_spread size_spread_item)

declare enforceAdditionalProperties.simps [simp del]

section \<open>The OpenAI-compatible provider\<close>

text \<open>\<^verbatim>\<open>OpenAIToolCall\<close> (its \<^verbatim>\<open>type\<close> is always \<^verbatim>\<open>function\<close>) and \<^verbatim>\<open>OpenAIMessage\<close>.\<close>

record openai_tool_call =
  otc_id :: string
  otc_function_name :: string
  otc_function_arguments :: string

datatype openai_message =
    OpenAISystem prompt_content
  | OpenAIUser prompt_content
  | OpenAIAssistant "string option" "openai_tool_call list option"
  | OpenAITool string string

text \<open>
  The request body. \<open>ob_messages\<close> is the array of messages: its address at the level of
  the heap, its elements once the request is read. \<open>ob_tools\<close> holds the metadata that
  \<^verbatim>\<open>toolsToOpenAIFormat\<close> wraps as \<^verbatim>\<open>{type: 'function', function: meta}\<close>, and
  \<open>ob_response_format\<close> the \<^verbatim>\<open>schema\<close> of the \<^verbatim>\<open>json_schema\<close> response format (named
  \<^verbatim>\<open>response\<close>, strict).
\<close>

record 'a openai_body =
  ob_model :: string
  ob_messages :: 'a
  ob_stream :: bool
  ob_temperature :: "real option"
  ob_max_tokens :: "nat option"
  ob_response_format :: "jsval option"
  ob_tools :: "tool_metadata list option"
  ob_tool_choice :: "string option"

text \<open>\<^verbatim>\<open>OpenAIProvider.buildRequest\<close> on the heap: the new heap and the request.\<close>

definition openai_buildRequest ::
  "openai_message heap \<Rightarrow> nat build_request_params
     \<Rightarrow> openai_message heap \<times> nat openai_body request" where
  "openai_buildRequest h params =
     (let url = bp_apiUrl params @ ''/chat/completions'';
          headers = [(''Content-Type'', ''application/json'')]
            @ (case bp_apiKey params of
                 None \<Rightarrow> []
               | Some key \<Rightarrow> if key \<noteq> [] then [(''Authorization'', ''Bearer '' @ key)] else [])
      in case array_copy h (bp_messages params) of
           (h1, msgs) \<Rightarrow>
             (let h2 = (case bp_systemPrompt params of
                          None \<Rightarrow> h1
                        | Some sp \<Rightarrow> unshift h1 msgs (OpenAISystem sp));
                  openaiTools = bp_tools params
              in (h2,
                  \<lparr>req_url = url, req_headers = headers,
                   req_body =
                     \<lparr>ob_model = bp_modelName params, ob_messages = msgs,
                      ob_stream = bp_stream params,
                      ob_temperature = bp_temperature params,
                      ob_max_tokens = bp_maxTokens params,
                      ob_response_format =
                        map_option (\<lambda>s. enforceAdditionalProperties (schema_json s))
                          (bp_schema params),
                      ob_tools = (if length openaiTools > 0 then Some openaiTools else None),
                      ob_tool_choice = (if length openaiTools > 0 then Some ''auto'' else None)\<rparr>\<rparr>)))"

text \<open>
  What the loop sees of it: the history is put into an array of its own, the request is
  built, and the messages of the body are read off the heap.
\<close>

definition read_openai_body :: "'m heap \<Rightarrow> nat openai_body \<Rightarrow> 'm list openai_body" where
  "read_openai_body h b =
     \<lparr>ob_model = ob_model b, ob_messages = h ! ob_messages b, ob_stream = ob_stream b,
      ob_temperature = ob_temperature b, ob_max_tokens = ob_max_tokens b,
      ob_response_format = ob_response_format b, ob_tools = ob_tools b,
      ob_tool_choice = ob_tool_choice b\<rparr>"

definition openai_request ::
  "openai_message list build_request_params \<Rightarrow> openai_message list openai_body request" where
  "openai_request params =
     (case openai_buildRequest [bp_messages params]
             \<lparr>bp_apiUrl = bp_apiUrl params, bp_apiKey = bp_apiKey params,
              bp_modelName = bp_modelName params, bp_messages = 0,
              bp_tools = bp_tools params, bp_stream = bp_stream params,
              bp_temperature = bp_temperature params, bp_maxTokens = bp_maxTokens params,
              bp_systemPrompt = bp_systemPrompt params, bp_schema = bp_schema params\<rparr> of
        (h, r) \<Rightarrow>
          \<lparr>req_url = req_url r, req_headers = req_headers r,
           req_body = read_openai_body h (req_body r)\<rparr>)"

definition openai_formatUserMessage ::
  "prompt_content \<Rightarrow> content_part list option \<Rightarrow> openai_message" where
  "openai_formatUserMessage content prependImages =
     (case prependImages of
        None \<Rightarrow> OpenAIUser content
      | Some images \<Rightarrow>
          if length images > 0 then
            OpenAIUser (Parts (images @ (case content of
                                            Text s \<Rightarrow> [TextPart s]
                                          | Parts ps \<Rightarrow> ps)))
          else OpenAIUser content)"

definition openai_formatAssistantMessage :: "string \<Rightarrow> tool_call_info list \<Rightarrow> openai_message" where
  "openai_formatAssistantMessage content toolCalls =
     OpenAIAssistant (if content \<noteq> [] then Some content else None)
       (if length toolCalls > 0
        then Some (map (\<lambda>tc. \<lparr>otc_id = tc_id tc, otc_function_name = tc_name tc,
                                otc_function_arguments = tc_arguments tc\<rparr>) toolCalls)
        else None)"

definition openai_formatToolResults :: "tool_result_info list \<Rightarrow> openai_message list" where
  "openai_formatToolResults results = map (\<lambda>tr. OpenAITool (tr_id tr) (tr_result tr)) results"

text \<open>
  The non-streaming response body, as \<^verbatim>\<open>parseResponse\<close> types it: \<^verbatim>\<open>choices\<close> may be
  absent, each choice has a \<^verbatim>\<open>message\<close> whose \<^verbatim>\<open>content\<close> and \<^verbatim>\<open>tool_calls\<close> may be
  absent.
\<close>

record openai_choice =
  message_content :: "string option"
  message_tool_calls :: "openai_tool_call list option"

record openai_data =
  choices :: "openai_choice list option"

text \<open>
  A streamed chunk, as far as \<^verbatim>\<open>parseResponse\<close> reads it: what
  \<^verbatim>\<open>chunk.choices?.[0]?.delta\<close> gives (\<open>None\<close> when it is missing), with the content
  and tool calls of the delta and the optional fields of each tool-call delta (\<^verbatim>\<open>tc.function?.name\<close> and
  \<^verbatim>\<open>tc.function?.arguments\<close> are \<open>None\<close> when \<^verbatim>\<open>function\<close> or the field is missing).
\<close>

record openai_tool_call_delta =
  tcd_index :: "nat option"
  tcd_id :: "string option"
  tcd_function_name :: "string option"
  tcd_function_arguments :: "string option"

record openai_delta =
  delta_content :: "string option"
  delta_tool_calls :: "openai_tool_call_delta list option"

type_synonym openai_chunk = "openai_delta option"

text \<open>
  The HTTP response as the provider reads it: \<open>or_body\<close> is \<^verbatim>\<open>response.body\<close>, given
  by the chunks \<^verbatim>\<open>parseSSEStream\<close> yields from it (\<open>None\<close> when the response has no body
  stream), and \<open>or_json\<close> is what \<^verbatim>\<open>response.json()\<close> resolves to or rejects with.
\<close>

record ('chunk, 'data) provider_response =
  or_body :: "'chunk list option"
  or_json :: "string + 'data"

text \<open>\<^verbatim>\<open>s || ''\<close> for an optional string, and the test \<^verbatim>\<open>if (s)\<close>.\<close>

definition or_empty :: "string option \<Rightarrow> string" where
  "or_empty s = (case s of None \<Rightarrow> [] | Some t \<Rightarrow> t)"

definition present :: "string option \<Rightarrow> bool" where
  "present s = (case s of None \<Rightarrow> False | Some t \<Rightarrow> t \<noteq> [])"

text \<open>
  The streamed tool calls are accreted in a JavaScript array that may have holes
  (\<^verbatim>\<open>toolCalls[idx] = ...\<close> beyond its length): a list of optional entries.
\<close>

definition array_get :: "'a option list \<Rightarrow> nat \<Rightarrow> 'a option" where
  "array_get xs i = (if i < length xs then xs ! i else None)"

definition array_put :: "'a option list \<Rightarrow> nat \<Rightarrow> 'a \<Rightarrow> 'a option list" where
  "array_put xs i x =
     (if i < length xs then xs[i := Some x]
      else xs @ replicate (i - length xs) None @ [Some x])"

definition accrete_tool_call ::
  "tool_call_info option list \<Rightarrow> openai_tool_call_delta \<Rightarrow> tool_call_info option list" where
  "accrete_tool_call toolCalls tc =
     (let idx = (case tcd_index tc of None \<Rightarrow> 0 | Some i \<Rightarrow> i);
          entry = (case array_get toolCalls idx of
                     None \<Rightarrow> \<lparr>tc_id = or_empty (tcd_id tc),
                               tc_name = or_empty (tcd_function_name tc), tc_arguments = []\<rparr>
                   | Some e \<Rightarrow> e);
          entry = (if present (tcd_id tc) then entry\<lparr>tc_id := or_empty (tcd_id tc)\<rparr> else entry);
          entry = (if present (tcd_function_name tc)
                   then entry\<lparr>tc_name := or_empty (tcd_function_name tc)\<rparr> else entry);
          entry = (if present (tcd_function_arguments tc)
                   then entry\<lparr>tc_arguments := tc_arguments entry
                                   @ or_empty (tcd_function_arguments tc)\<rparr>
                   else entry)
      in array_put toolCalls idx entry)"

text \<open>The \<^verbatim>\<open>for await\<close> loop over the chunks of a streamed response.\<close>

fun openai_stream ::
  "openai_chunk list \<Rightarrow> string \<Rightarrow> tool_call_info option list
     \<Rightarrow> string \<times> tool_call_info option list" where
  "openai_stream [] content toolCalls = (content, toolCalls)"
| "openai_stream (None # chunks) content toolCalls = openai_stream chunks content toolCalls"
| "openai_stream (Some delta # chunks) content toolCalls =
     openai_stream chunks
       (if present (delta_content delta) then content @ or_empty (delta_content delta) else content)
       (case delta_tool_calls delta of
          None \<Rightarrow> toolCalls
        | Some tcs \<Rightarrow> foldl accrete_tool_call toolCalls tcs)"

text \<open>
  \<^verbatim>\<open>OpenAIProvider.parseResponse\<close>. The array of tool calls it returns is read by the
  loop with \<^verbatim>\<open>filter\<close>, which skips holes: the list of the entries that are there.
\<close>

definition openai_parseResponse ::
  "(openai_chunk, openai_data) provider_response \<Rightarrow> bool \<Rightarrow> string + parsed_response" where
  "openai_parseResponse response streaming =
     (case (if streaming then or_body response else None) of
        Some chunks \<Rightarrow>
          (case openai_stream chunks [] [] of
             (content, toolCalls) \<Rightarrow>
               Inr \<lparr>pr_content = content, pr_toolCalls = List.map_filter id toolCalls\<rparr>)
      | None \<Rightarrow>
          (case or_json response of
             Inl msg \<Rightarrow> Inl msg
           | Inr data \<Rightarrow>
               (case (case choices data of None \<Rightarrow> None | Some [] \<Rightarrow> None | Some (c # cs) \<Rightarrow> Some c) of
                  None \<Rightarrow> Inl ''No response from LLM''
                | Some choice \<Rightarrow>
                    Inr \<lparr>pr_content = or_empty (message_content choice),
                         pr_toolCalls =
                           map (\<lambda>tc. \<lparr>tc_id = otc_id tc, tc_name = otc_function_name tc,
                                      tc_arguments = otc_function_arguments tc\<rparr>)
                             (case message_tool_calls choice of None \<Rightarrow> [] | Some tcs \<Rightarrow> tcs)\<rparr>)))"

definition OpenAIProvider ::
  "(openai_message, openai_message list openai_body request,
    (openai_chunk, openai_data) provider_response) provider_adapter" where
  "OpenAIProvider =
     \<lparr>buildRequest = openai_request,
      formatUserMessage = openai_formatUserMessage,
      formatAssistantMessage = openai_formatAssistantMessage,
      formatToolResults = openai_formatToolResults,
      parseResponse = openai_parseResponse\<rparr>"

section \<open>The Anthropic provider\<close>

text \<open>
  The request body. The messages are \<^verbatim>\<open>params.messages\<close> itself; \<open>ab_stream\<close> says that
  the body has \<^verbatim>\<open>stream: true\<close>; \<open>ab_system\<close> is the system prompt, a string or its
  text parts; \<open>ab_tools\<close> holds the metadata sent as \<^verbatim>\<open>{name, description,
  input_schema}\<close> and \<open>ab_tool_choice\<close> the name of the tool that is forced. Of the
  provider, \<^verbatim>\<open>buildRequest\<close> and \<^verbatim>\<open>parseResponse\<close> are modelled.
\<close>

record 'a anthropic_body =
  ab_model :: string
  ab_messages :: 'a
  ab_max_tokens :: nat
  ab_stream :: bool
  ab_temperature :: "real option"
  ab_system :: "prompt_content option"
  ab_tools :: "tool_metadata list option"
  ab_tool_choice :: "string option"

definition ANTHROPIC_DEFAULT_MAX_TOKENS :: nat where
  "ANTHROPIC_DEFAULT_MAX_TOKENS = 4096"

fun isTextPart :: "content_part \<Rightarrow> bool" where
  "isTextPart (TextPart t) = True"
| "isTextPart (ImageUrlPart u) = False"

definition anthropic_buildRequest ::
  "'m heap \<Rightarrow> nat build_request_params \<Rightarrow> 'm heap \<times> nat anthropic_body request" where
  "anthropic_buildRequest h params =
     (let url = bp_apiUrl params @ ''/messages'';
          headers = [(''content-type'', ''application/json''), (''anthropic-version'', ''2023-06-01'')]
            @ (case bp_apiKey params of
                 None \<Rightarrow> []
               | Some key \<Rightarrow> if key \<noteq> [] then [(''x-api-key'', key)] else [])
      in (h,
          \<lparr>req_url = url, req_headers = headers,
           req_body =
             \<lparr>ab_model = bp_modelName params,
              ab_messages = bp_messages params,
              ab_max_tokens = (case bp_maxTokens params of
                                 None \<Rightarrow> ANTHROPIC_DEFAULT_MAX_TOKENS | Some n \<Rightarrow> n),
              ab_stream = bp_stream params,
              ab_temperature = bp_temperature params,
              ab_system = (case bp_systemPrompt params of
                             None \<Rightarrow> None
                           | Some (Text s) \<Rightarrow> Some (Text s)
                           | Some (Parts ps) \<Rightarrow> Some (Parts (filter isTextPart ps))),
              ab_tools = (if length (bp_tools params) > 0 then Some (bp_tools params) else None),
              ab_tool_choice =
                (if length (bp_tools params) > 0 \<and> bp_schema params \<noteq> None then
                   (case find (\<lambda>t. tool_name t = ''return_value'') (bp_tools params) of
                      None \<Rightarrow> None
                    | Some t \<Rightarrow> if tool_name t \<noteq> [] then Some (tool_name t) else None)
                 else None)\<rparr>\<rparr>))"









section \<open>The Ollama provider\<close>

text \<open>
  \<^verbatim>\<open>OllamaMessage\<close>, and the request body (\<open>olb_temperature\<close> is the temperature of its
  \<^verbatim>\<open>options\<close>, \<open>olb_format\<close> the JSON schema of a structured output). Of the provider,
  \<^verbatim>\<open>buildRequest\<close> and \<^verbatim>\<open>parseResponse\<close> are modelled.
\<close>

datatype ollama_message =
    OllamaSystem string
  | OllamaUser string "string list option"
  | OllamaAssistant string "(string \<times> jsval) list option"
  | OllamaTool string

record 'a ollama_body =
  olb_model :: string
  olb_messages :: 'a
  olb_stream :: bool
  olb_temperature :: "real option"
  olb_format :: "jsval option"
  olb_tools :: "tool_metadata list option"

fun part_text :: "content_part \<Rightarrow> string" where
  "part_text (TextPart t) = t"
| "part_text (ImageUrlPart u) = []"

fun extractText :: "prompt_content \<Rightarrow> string" where
  "extractText (Text s) = s"
| "extractText (Parts ps) = concat (map part_text (filter isTextPart ps))"

definition ollama_buildRequest ::
  "ollama_message heap \<Rightarrow> nat build_request_params
     \<Rightarrow> ollama_message heap \<times> nat ollama_body request" where
  "ollama_buildRequest h params =
     (let url = bp_apiUrl params @ ''/api/chat'';
          headers = [(''Content-Type'', ''application/json'')]
      in case array_copy h (bp_messages params) of
           (h1, msgs) \<Rightarrow>
             (let h2 = (case bp_systemPrompt params of
                          None \<Rightarrow> h1
                        | Some sp \<Rightarrow> unshift h1 msgs (OllamaSystem (extractText sp)));
                  openaiTools = bp_tools params
              in (h2,
                  \<lparr>req_url = url, req_headers = headers,
                   req_body =
                     \<lparr>olb_model = bp_modelName params, olb_messages = msgs,
                      olb_stream = bp_stream params,
                      olb_temperature = bp_temperature params,
                      olb_format = map_option schema_json (bp_schema params),
                      olb_tools = (if length openaiTools > 0 then Some openaiTools else None)\<rparr>\<rparr>)))"









section \<open>Example tools\<close>


definition parse_table :: "(string \<times> jsval) list \<Rightarrow> string \<Rightarrow> string + jsval" where
  "parse_table tab s = (case map_of tab s of None \<Rightarrow> Inl ''Unexpected token'' | Some v \<Rightarrow> Inr v)"




text \<open>
  A tool of the given name without parameters that returns the given value and leaves the
  world alone.
\<close>

definition any_tool :: "string \<Rightarrow> jsval \<Rightarrow> 'w tool_function" where
  "any_tool name v =
     \<lparr>tool_meta = \<lparr>tool_name = name, tool_description = ''The '' @ name @ '' function'',
                   parameters = \<lparr>schema_type = ''object'', properties = Some [], required = None\<rparr>\<rparr>,
      tool_impl = (\<lambda>args w. (Inr v, w))\<rparr>"



text \<open>A flat string-map schema with one required and one optional field.\<close>

definition person_schema :: simple_schema where
  "person_schema = [(''name'', ''User name''), (''bio?'', ''Bio'')]"

section \<open>Example platforms\<close>

text \<open>
  The fixtures of \<^verbatim>\<open>executor.test.ts\<close>: its default configuration, its mocked response
  (\<^verbatim>\<open>ok\<close>, no body stream, a JSON body with one choice), a \<^verbatim>\<open>JSON.parse\<close> that knows
  the argument strings of the examples, and a \<^verbatim>\<open>fetch\<close> that always resolves to the same
  outcome (\<^verbatim>\<open>mockResolvedValue\<close>).
\<close>

definition defaultConfig :: config where
  "defaultConfig =
     \<lparr>apiUrl = ''http://localhost:8080/v1'', modelName = ''test-model'',
      apiKey = Some ''test-key'', maxIterations = None, stream = True, timeout = 60000,
      temperature = None, maxTokens = None, maxToolResultLength = None\<rparr>"

definition mock_response ::
  "string \<Rightarrow> openai_tool_call list option
     \<Rightarrow> (openai_chunk, openai_data) provider_response http_response" where
  "mock_response content toolCalls =
     \<lparr>resp_ok = True, resp_status = 200, resp_text = [],
      resp_payload =
        \<lparr>or_body = None,
         or_json = Inr \<lparr>choices = Some [\<lparr>message_content = Some content,
                                          message_tool_calls = toolCalls\<rparr>]\<rparr>\<rparr>\<rparr>"

definition mockLLMResponse ::
  "string \<Rightarrow> openai_tool_call list option
     \<Rightarrow> (openai_chunk, openai_data) provider_response fetch_outcome" where
  "mockLLMResponse content toolCalls = Response (mock_response content toolCalls)"

definition mock_parse :: "string \<Rightarrow> string + jsval" where
  \<open>mock_parse = parse_table
     [(''{}'', Obj []),
      (''{"name":"Ann"}'', Obj [(''name'', Str ''Ann'')])]\<close>

definition always :: "'resp fetch_outcome \<Rightarrow> ('req, 'resp, 'w) platform" where
  "always outcome = \<lparr>fetch = (\<lambda>req w. (outcome, w)), JSON_parse = mock_parse\<rparr>"

definition store_and_more :: "openai_tool_call list" where
  \<open>store_and_more =
     [\<lparr>otc_id = ''call1'', otc_function_name = ''return_value'',
       otc_function_arguments = ''{"name":"Ann"}''\<rparr>,
      \<lparr>otc_id = ''call2'', otc_function_name = ''lookup'', otc_function_arguments = ''{}''\<rparr>]\<close>


section \<open>The loop with the incomplete tool calls dropped by the provider\<close>

text \<open>
  The provider that differs from the given one in that its \<open>parseResponse\<close> leaves the
  incomplete tool calls out of what it returns: a model that never requested them.
\<close>

definition drop_incomplete ::
  "('msg, 'req, 'resp) provider_adapter \<Rightarrow> ('msg, 'req, 'resp) provider_adapter" where
  "drop_incomplete provider =
     provider\<lparr>parseResponse := (\<lambda>response streaming.
        case parseResponse provider response streaming of
          Inl msg \<Rightarrow> Inl msg
        | Inr pr \<Rightarrow> Inr (pr\<lparr>pr_toolCalls := filter complete (pr_toolCalls pr)\<rparr>))\<rparr>"

text \<open>
  A \<^verbatim>\<open>fetch\<close> that resolves to the outcomes of a script, one per request
  (\<^verbatim>\<open>mockResolvedValueOnce\<close>): the script is the world.
\<close>

definition scripted :: "('req, 'resp, 'resp fetch_outcome list) platform" where
  "scripted =
     \<lparr>fetch = (\<lambda>req w. case w of [] \<Rightarrow> (FetchError ''fetch failed'', []) | r # rs \<Rightarrow> (r, rs)),
      JSON_parse = mock_parse\<rparr>"

text \<open>The tool calls of the examples, as the mocked responses carry them.\<close>

definition unknown_call :: "openai_tool_call list" where
  "unknown_call =
     [\<lparr>otc_id = ''call1'', otc_function_name = ''unknownTool'', otc_function_arguments = ''{}''\<rparr>]"

definition loop_call :: "openai_tool_call list" where
  "loop_call = [\<lparr>otc_id = ''call1'', otc_function_name = ''loop'', otc_function_arguments = ''{}''\<rparr>]"

text \<open>The tools of the store example: a return store and a further tool.\<close>

definition store_tools :: "jsval option tool_function list" where
  "store_tools = [createStore ''return_value'' (resolveSchema person_schema),
                  any_tool ''lookup'' Undefined]"

text \<open>The tool call the OpenAI provider makes of a tool call of the response body.\<close>

definition to_info :: "openai_tool_call \<Rightarrow> tool_call_info" where
  "to_info tc = \<lparr>tc_id = otc_id tc, tc_name = otc_function_name tc,
                 tc_arguments = otc_function_arguments tc\<rparr>"

text \<open>Request parameters with a system prompt; the history is the array at address 0.\<close>

definition system_params :: "nat build_request_params" where
  "system_params =
     \<lparr>bp_apiUrl = ''http://localhost:8080/v1'', bp_apiKey = Some ''test-key'',
      bp_modelName = ''test-model'', bp_messages = 0, bp_tools = [], bp_stream = True,
      bp_temperature = None, bp_maxTokens = None, bp_systemPrompt = Some (Text ''Be brief''),
      bp_schema = None\<rparr>"

section \<open>Verified properties\<close>

subsection \<open>Positional arguments\<close>




lemma map_args_Obj: "map_args (Obj kvs) nms = Inr (map (obj_get kvs) nms)"
  by (induction nms) (auto simp: input_get_def)





subsection \<open>Canonical tool results\<close>

lemma serialize_None_iff: "serialize gap indent v = None \<longleftrightarrow> v = Undefined"
  by (cases v) auto

lemma JSON_stringify_defined: "v \<noteq> Undefined \<Longrightarrow> \<exists>s. JSON_stringify v = Some s"
  using serialize_None_iff [of "[]" "[]" v] by (auto simp: JSON_stringify_def)









subsection \<open>The store\<close>

lemma obj_set_fresh: "k \<notin> fst ` set obj \<Longrightarrow> obj_set obj k v = obj @ [(k, v)]"
  by (induction obj) auto

lemma reconstruct_zip:
  "distinct ks \<Longrightarrow> set ks \<inter> fst ` set obj = {}
     \<Longrightarrow> reconstruct ks args obj = obj @ filter (\<lambda>(k, a). a \<noteq> Undefined) (zip ks args)"
proof (induction ks args obj rule: reconstruct.induct)
  case (3 k ks a args obj)
  then show ?case by (auto simp: obj_set_fresh)
qed auto


text \<open>
  Claim C4. A store made by \<open>createStore\<close>, called on positional arguments, builds the
  object that has, in the order of the schema's \<^verbatim>\<open>properties\<close> keys, each key whose
  argument is present and not \<^verbatim>\<open>undefined\<close>, and hands it to the schema's \<open>parse\<close>.
  When \<open>parse\<close> returns \<open>v\<close>, the call returns \<^verbatim>\<open>Value stored successfully\<close>, the
  slot holds \<open>v\<close> and \<^verbatim>\<open>get()\<close> gives \<open>v\<close>. When \<open>parse\<close> throws, the call throws
  the same error, the slot is the one before the call and \<^verbatim>\<open>get()\<close> gives what it
  gave before. The keys of an object are distinct, which is the hypothesis.
\<close>

theorem store_invocation:
  assumes keys: "distinct (propKeys schema)"
  shows "(\<forall>v. schema_parse schema
                 (Obj (filter (\<lambda>(k, a). a \<noteq> Undefined) (zip (propKeys schema) args))) = Inr v
              \<longrightarrow> tool_impl (createStore name schema) args stored
                    = (Inr (Str ''Value stored successfully''), Some v)
                  \<and> store_get (Some v) = v)
       \<and> (\<forall>msg. schema_parse schema
                 (Obj (filter (\<lambda>(k, a). a \<noteq> Undefined) (zip (propKeys schema) args))) = Inl msg
              \<longrightarrow> tool_impl (createStore name schema) args stored = (Inl msg, stored)
                  \<and> store_get (snd (tool_impl (createStore name schema) args stored))
                      = store_get stored)"
  using reconstruct_zip [OF keys, of "[]" args]
  by (auto simp: createStore_def store_fn_def store_get_def)

theorem store_invocation_witness:
  \<open>tool_impl (createStore ''return_value'' (resolveSchema person_schema))
      [Str ''Ann''] None
    = (Inr (Str ''Value stored successfully''), Some (Obj [(''name'', Str ''Ann'')]))
   \<and> tool_impl (createStore ''return_value'' (resolveSchema person_schema))
      [Undefined, Str ''likes tea''] (Some (Obj [(''name'', Str ''Ann'')]))
    = (Inl ''Missing required field: "name"'', Some (Obj [(''name'', Str ''Ann'')]))\<close>
proof -
  let ?s = "resolveSchema person_schema"
  have keys: "propKeys ?s = [''name'', ''bio'']"
    by (simp add: propKeys_def resolveSchema_def simpleSchemaToJsonSchema_def person_schema_def
          cleanKey_def isOptional_def)
  then have d: "distinct (propKeys ?s)" by simp
  have ok: "schema_parse ?s (Obj (filter (\<lambda>(k, a). a \<noteq> Undefined) (zip (propKeys ?s) [Str ''Ann''])))
              = Inr (Obj [(''name'', Str ''Ann'')])"
    unfolding keys
    by (simp add: resolveSchema_def createSimpleSchemaParser_def person_schema_def
          cleanKey_def isOptional_def)
  have bad: \<open>schema_parse ?s (Obj (filter (\<lambda>(k, a). a \<noteq> Undefined)
                 (zip (propKeys ?s) [Undefined, Str ''likes tea''])))
              = Inl ''Missing required field: "name"''\<close>
    unfolding keys
    by (simp add: resolveSchema_def createSimpleSchemaParser_def person_schema_def
          cleanKey_def isOptional_def dq_def)
  show ?thesis
    using store_invocation [OF d, of "[Str ''Ann'']" "''return_value''" None, THEN conjunct1, rule_format, OF ok]
      store_invocation [OF d, of "[Undefined, Str ''likes tea'']" "''return_value''"
        "Some (Obj [(''name'', Str ''Ann'')])", THEN conjunct2, rule_format, OF bad]
    by simp
qed

subsection \<open>Single tool calls\<close>

lemma exec_tool_call_returned:
  assumes "find (\<lambda>t. tool_name (tool_meta t) = tc_name toolCall) tools = Some toolFn"
      and "parse (tc_arguments toolCall) = Inr (Obj kvs)"
      and "tool_impl toolFn (map (obj_get kvs) (paramNames (tool_meta toolFn))) w = (Inr rawResult, w')"
  shows "exec_tool_call parse mx tools toolCall w
           = (\<lparr>tr_id = tc_id toolCall, tr_name = tc_name toolCall,
               tr_result = truncate_result mx (result_string (resolveIterableResult rawResult))\<rparr>, w')"
  using assms by (simp add: exec_tool_call_def map_args_Obj)

lemma exec_tool_call_unknown:
  assumes "find (\<lambda>t. tool_name (tool_meta t) = tc_name toolCall) tools = None"
  shows "exec_tool_call parse mx tools toolCall w
           = (\<lparr>tr_id = tc_id toolCall, tr_name = tc_name toolCall,
               tr_result = error_payload (''Unknown tool: '' @ tc_name toolCall)\<rparr>, w)"
  using assms by (simp add: exec_tool_call_def)


subsection \<open>Incomplete tool calls\<close>

lemma handle_response_filter:
  "handle_response pf provider cfg tools schema returnStore
       (pr\<lparr>pr_toolCalls := filter complete (pr_toolCalls pr)\<rparr>) st
     = handle_response pf provider cfg tools schema returnStore pr st"
  by (simp add: handle_response_def Let_def)

lemma handle_response_parseResponse:
  "handle_response pf (provider\<lparr>parseResponse := f\<rparr>) cfg tools schema returnStore pr st
     = handle_response pf provider cfg tools schema returnStore pr st"
  by (simp add: handle_response_def Let_def)

lemma loop_body_drop_incomplete:
  "loop_body pf (drop_incomplete provider) cfg tools schema returnStore systemPrompt st
     = loop_body pf provider cfg tools schema returnStore systemPrompt st"
  by (simp add: loop_body_def drop_incomplete_def handle_response_parseResponse
        handle_response_filter Let_def
      split: prod.splits fetch_outcome.splits sum.splits)

lemma run_loop_drop_incomplete:
  "run_loop fuel pf (drop_incomplete provider) cfg tools schema returnStore systemPrompt st
     = run_loop fuel pf provider cfg tools schema returnStore systemPrompt st"
proof (induction fuel arbitrary: st)
  case 0
  show ?case by (simp add: run_loop.simps)
next
  case (Suc fuel)
  show ?case
    by (subst (1 2) run_loop.simps) (simp add: loop_body_drop_incomplete Suc.IH split: step.splits)
qed

lemma exec_tool_call_id: "tr_id (fst (exec_tool_call parse mx tools tc w)) = tc_id tc"
  and exec_tool_call_name: "tr_name (fst (exec_tool_call parse mx tools tc w)) = tc_name tc"
  by (auto simp: exec_tool_call_def split: option.splits sum.splits prod.splits)

lemma exec_tool_calls_ids:
  "map (\<lambda>r. (tr_id r, tr_name r)) (fst (exec_tool_calls parse mx tools tcs w))
     = map (\<lambda>tc. (tc_id tc, tc_name tc)) tcs"
proof (induction tcs arbitrary: w)
  case Nil
  show ?case by simp
next
  case (Cons tc tcs)
  obtain r w' where e: "exec_tool_call parse mx tools tc w = (r, w')" by (cases "exec_tool_call parse mx tools tc w")
  obtain rs w'' where es: "exec_tool_calls parse mx tools tcs w' = (rs, w'')" by (cases "exec_tool_calls parse mx tools tcs w'")
  from e have "tr_id r = tc_id tc" "tr_name r = tc_name tc"
    using exec_tool_call_id [of parse mx tools tc w] exec_tool_call_name [of parse mx tools tc w] by simp_all
  moreover from es Cons.IH [of w'] have "map (\<lambda>r. (tr_id r, tr_name r)) rs = map (\<lambda>tc. (tc_id tc, tc_name tc)) tcs" by simp
  ultimately show ?case by (simp add: e es)
qed


text \<open>
  Claim C6. Tool calls of a parsed response that lack an id or a name are dropped before
  dispatch. The whole loop gives the same result, history and world with the given
  provider as with the provider that leaves them out itself; a parsed response is handled
  as the response with only its complete calls is, and a response of incomplete calls
  alone as a response without tool calls. The results of a batch are, in order, one per
  complete call with that call's id and name, so that a dropped call has no result, and
  every call of the batch has an id and a name. No branch of the loop raises an error for
  a dropped call: the equalities cover the result of the loop.
\<close>

theorem incomplete_tool_calls_dropped:
  "run_loop fuel pf (drop_incomplete provider) cfg tools schema returnStore systemPrompt st
     = run_loop fuel pf provider cfg tools schema returnStore systemPrompt st
   \<and> handle_response pf provider cfg tools schema returnStore pr st'
     = handle_response pf provider cfg tools schema returnStore
         (pr\<lparr>pr_toolCalls := filter complete (pr_toolCalls pr)\<rparr>) st'
   \<and> handle_response pf provider cfg tools schema returnStore
         (pr\<lparr>pr_toolCalls := filter (\<lambda>tc. \<not> complete tc) raw\<rparr>) st'
     = handle_response pf provider cfg tools schema returnStore (pr\<lparr>pr_toolCalls := []\<rparr>) st'
   \<and> map (\<lambda>r. (tr_id r, tr_name r))
         (fst (exec_tool_calls (JSON_parse pf) (maxToolResultLength cfg) tools
                 (filter complete (pr_toolCalls pr)) w))
     = map (\<lambda>tc. (tc_id tc, tc_name tc)) (filter complete (pr_toolCalls pr))
   \<and> list_all (\<lambda>tc. tc_id tc \<noteq> [] \<and> tc_name tc \<noteq> [])
         (filter complete (pr_toolCalls pr))"
proof (intro conjI)
  show "handle_response pf provider cfg tools schema returnStore
         (pr\<lparr>pr_toolCalls := filter (\<lambda>tc. \<not> complete tc) raw\<rparr>) st'
     = handle_response pf provider cfg tools schema returnStore (pr\<lparr>pr_toolCalls := []\<rparr>) st'"
    by (simp add: handle_response_def Let_def)
qed (simp_all add: run_loop_drop_incomplete handle_response_filter exec_tool_calls_ids list_all_iff complete_def)


subsection \<open>Early exit through the store\<close>

lemma exec_tool_calls_length:
  "length (fst (exec_tool_calls parse mx tools tcs w)) = length tcs"
  using exec_tool_calls_ids [of parse mx tools tcs w, THEN arg_cong, of length] by simp


text \<open>
  Claim C3. In a pass of the loop whose response has complete tool calls, the whole
  batch is executed (one result per call, \<open>w'\<close> the world after the last call) and
  the assistant message and all tool results are appended to the history; if then the
  \<^verbatim>\<open>get()\<close> of the return store gives a value other than \<^verbatim>\<open>undefined\<close>, the loop
  returns that value at once, with this history, without another request and without
  counting the iteration.
\<close>

theorem store_early_exit:
  assumes iterate: "case maxIterations cfg of None \<Rightarrow> True | Some cap \<Rightarrow> iterations st < cap"
      and fetched: "fetch pf (buildRequest provider (request_params cfg tools schema systemPrompt (messages st)))
                      (world st) = (Response response, w_fetched)"
      and ok: "resp_ok response"
      and parsed: "parseResponse provider (resp_payload response) (stream cfg) = Inr pr"
      and requested: "filter complete (pr_toolCalls pr) \<noteq> []"
      and executed: "exec_tool_calls (JSON_parse pf) (maxToolResultLength cfg) tools
                       (filter complete (pr_toolCalls pr)) w_fetched = (toolResults, w')"
      and filled: "get w' \<noteq> Undefined"
  shows "run_loop (Suc fuel) pf provider cfg tools schema (Some get) systemPrompt st
           = Some (Inr (get w'),
                   \<lparr>messages = messages st
                       @ [formatAssistantMessage provider (pr_content pr) (filter complete (pr_toolCalls pr))]
                       @ formatToolResults provider toolResults,
                     iterations = iterations st, world = w',
                     sent = sent st @ [buildRequest provider
                                         (request_params cfg tools schema systemPrompt (messages st))]\<rparr>)
         \<and> length toolResults = length (filter complete (pr_toolCalls pr))"
proof
  show "length toolResults = length (filter complete (pr_toolCalls pr))"
    using exec_tool_calls_length [of "JSON_parse pf" "maxToolResultLength cfg" tools
            "filter complete (pr_toolCalls pr)" w_fetched] executed by simp
  have "loop_body pf provider cfg tools schema (Some get) systemPrompt st
          = Done (Inr (get w'))
              \<lparr>messages = messages st
                  @ [formatAssistantMessage provider (pr_content pr) (filter complete (pr_toolCalls pr))]
                  @ formatToolResults provider toolResults,
                iterations = iterations st, world = w',
                sent = sent st @ [buildRequest provider
                                    (request_params cfg tools schema systemPrompt (messages st))]\<rparr>"
    using fetched ok parsed requested executed filled
    by (simp add: loop_body_def handle_response_def Let_def)
  then show "run_loop (Suc fuel) pf provider cfg tools schema (Some get) systemPrompt st
           = Some (Inr (get w'),
                   \<lparr>messages = messages st
                       @ [formatAssistantMessage provider (pr_content pr) (filter complete (pr_toolCalls pr))]
                       @ formatToolResults provider toolResults,
                     iterations = iterations st, world = w',
                     sent = sent st @ [buildRequest provider
                                         (request_params cfg tools schema systemPrompt (messages st))]\<rparr>)"
    using iterate by (subst run_loop.simps) simp
qed


text \<open>
  The model asks for the store and for a further tool in the same turn and never gives a
  tool-free response: both calls are executed and recorded, and the loop returns the
  stored value after one request.
\<close>

theorem store_early_exit_witness:
  "map_option (\<lambda>(r, st). (r, messages st, iterations st, world st, length (sent st)))
     (runToolLoop 1 (always (mockLLMResponse [] (Some store_and_more))) OpenAIProvider
        (Text ''Who is it?'')
        [createStore ''return_value'' (resolveSchema person_schema), any_tool ''lookup'' Undefined]
        defaultConfig None (Some store_get) None None None None)
   = Some (Inr (Obj [(''name'', Str ''Ann'')]),
           [OpenAIUser (Text ''Who is it?''),
            OpenAIAssistant None
              (Some store_and_more),
            OpenAITool ''call1'' ''Value stored successfully'',
            OpenAITool ''call2'' ''OK''],
           0, Some (Obj [(''name'', Str ''Ann'')]), 1)"
proof -
  let ?pf = "always (mockLLMResponse [] (Some store_and_more))
               :: (openai_message list openai_body request, (openai_chunk, openai_data) provider_response, jsval option) platform"
  let ?tools = "[createStore ''return_value'' (resolveSchema person_schema), any_tool ''lookup'' Undefined]
                  :: jsval option tool_function list"
  let ?st = "\<lparr>messages = [OpenAIUser (Text ''Who is it?'')], iterations = 0,
              world = (None :: jsval option),
              sent = ([] :: openai_message list openai_body request list)\<rparr>"
  let ?tcs = "[\<lparr>tc_id = ''call1'', tc_name = ''return_value'', tc_arguments = ''{''@ [dq] @ ''name'' @ [dq] @ '':'' @ [dq] @ ''Ann'' @ [dq] @ ''}''\<rparr>,
               \<lparr>tc_id = ''call2'', tc_name = ''lookup'', tc_arguments = ''{}''\<rparr>]"
  let ?pr = "\<lparr>pr_content = [], pr_toolCalls = ?tcs\<rparr>"
  let ?resp = "\<lparr>resp_ok = True, resp_status = 200, resp_text = [],
               resp_payload =
                 \<lparr>or_body = (None :: openai_chunk list option),
                  or_json = Inr \<lparr>choices = Some [\<lparr>message_content = Some [],
                                                   message_tool_calls = Some store_and_more\<rparr>]\<rparr>\<rparr>\<rparr>"
  have iterate: "case maxIterations defaultConfig of None \<Rightarrow> True | Some cap \<Rightarrow> iterations ?st < cap"
    by (simp add: defaultConfig_def)
  have fetched: "fetch ?pf (buildRequest OpenAIProvider
                     (request_params defaultConfig ?tools None None (messages ?st))) (world ?st)
                   = (Response ?resp, None)"
    by (simp add: always_def mockLLMResponse_def mock_response_def)
  have ok: "resp_ok ?resp"
    by simp
  have parsed: "parseResponse OpenAIProvider (resp_payload ?resp) (stream defaultConfig) = Inr ?pr"
    by (simp add: OpenAIProvider_def openai_parseResponse_def defaultConfig_def or_empty_def
          store_and_more_def dq_def)
  have requested: "filter complete (pr_toolCalls ?pr) \<noteq> []"
    by (simp add: complete_def)
  have keys: "propKeys (resolveSchema person_schema) = [''name'', ''bio'']"
    by (simp add: propKeys_def resolveSchema_def simpleSchemaToJsonSchema_def person_schema_def
          cleanKey_def isOptional_def)
  let ?tc1 = "\<lparr>tc_id = ''call1'', tc_name = ''return_value'', tc_arguments = ''{''@ [dq] @ ''name'' @ [dq] @ '':'' @ [dq] @ ''Ann'' @ [dq] @ ''}''\<rparr>"
  let ?tc2 = "\<lparr>tc_id = ''call2'', tc_name = ''lookup'', tc_arguments = ''{}''\<rparr>"
  have find1: "find (\<lambda>t. tool_name (tool_meta t) = tc_name ?tc1) ?tools
                = Some (createStore ''return_value'' (resolveSchema person_schema))"
    by (simp add: createStore_def)
  have find2: "find (\<lambda>t. tool_name (tool_meta t) = tc_name ?tc2) ?tools
                = Some (any_tool ''lookup'' Undefined)"
    by (simp add: createStore_def any_tool_def)
  have parse1: "mock_parse (tc_arguments ?tc1) = Inr (Obj [(''name'', Str ''Ann'')])"
    by (simp add: mock_parse_def parse_table_def dq_def)
  have parse2: "mock_parse (tc_arguments ?tc2) = Inr (Obj [])"
    by (simp add: mock_parse_def parse_table_def)
  have names1: "paramNames (tool_meta (createStore ''return_value'' (resolveSchema person_schema)))
                  = [''name'', ''bio'']"
    using keys by (simp add: paramNames_def propKeys_def createStore_def)
  have stored: "store_fn (resolveSchema person_schema) [Str ''Ann'', Undefined] None
                  = (Inr (Str ''Value stored successfully''), Some (Obj [(''name'', Str ''Ann'')]))"
    unfolding store_fn_def keys
    by (simp add: resolveSchema_def createSimpleSchemaParser_def person_schema_def cleanKey_def
          isOptional_def)
  have impl1: "tool_impl (createStore ''return_value'' (resolveSchema person_schema))
                 (map (obj_get [(''name'', Str ''Ann'')])
                    (paramNames (tool_meta (createStore ''return_value'' (resolveSchema person_schema)))))
                 None
               = (Inr (Str ''Value stored successfully''), Some (Obj [(''name'', Str ''Ann'')]))"
    unfolding names1 using stored by (simp add: createStore_def)
  have impl2: "tool_impl (any_tool ''lookup'' Undefined)
                 (map (obj_get []) (paramNames (tool_meta (any_tool ''lookup'' Undefined)))) w
               = (Inr Undefined, w)" for w :: "jsval option"
    by (simp add: any_tool_def)
  have call1: "exec_tool_call mock_parse None ?tools ?tc1 None
                 = (\<lparr>tr_id = ''call1'', tr_name = ''return_value'',
                     tr_result = ''Value stored successfully''\<rparr>,
                    Some (Obj [(''name'', Str ''Ann'')]))"
    unfolding exec_tool_call_returned [where parse = mock_parse, OF find1 parse1 impl1]
    by (simp add: truncate_result_def result_string_def)
  have call2: "exec_tool_call mock_parse None ?tools ?tc2 w
                 = (\<lparr>tr_id = ''call2'', tr_name = ''lookup'', tr_result = ''OK''\<rparr>, w)"
    for w :: "jsval option"
    unfolding exec_tool_call_returned [where parse = mock_parse, OF find2 parse2 impl2]
    by (simp add: truncate_result_def result_string_def)
  have executed: "exec_tool_calls (JSON_parse ?pf) (maxToolResultLength defaultConfig) ?tools
                    (filter complete (pr_toolCalls ?pr)) None
                  = ([\<lparr>tr_id = ''call1'', tr_name = ''return_value'', tr_result = ''Value stored successfully''\<rparr>,
                      \<lparr>tr_id = ''call2'', tr_name = ''lookup'', tr_result = ''OK''\<rparr>],
                     Some (Obj [(''name'', Str ''Ann'')]))"
    using call1 call2 by (simp add: complete_def always_def defaultConfig_def)
  have filled: "store_get (Some (Obj [(''name'', Str ''Ann'')])) \<noteq> Undefined"
    by (simp add: store_get_def)
  note t = store_early_exit [where fuel = 0 and schema = None and systemPrompt = None
      and pf = ?pf and provider = OpenAIProvider and cfg = defaultConfig and tools = ?tools
      and st = ?st and pr = ?pr and w_fetched = None and get = store_get
      and w' = "Some (Obj [(''name'', Str ''Ann'')])" and response = ?resp,
      OF iterate fetched ok parsed requested executed filled,
      THEN conjunct1]
  have init: "\<lparr>messages = (case None of None \<Rightarrow> [] | Some h \<Rightarrow> h)
                   @ [formatUserMessage OpenAIProvider (Text ''Who is it?'') None],
                 iterations = 0, world = None, sent = []\<rparr> = ?st"
    by (simp add: OpenAIProvider_def openai_formatUserMessage_def)
  have run: "runToolLoop (Suc 0) ?pf OpenAIProvider (Text ''Who is it?'') ?tools defaultConfig None (Some store_get) None None None None
     = run_loop (Suc 0) ?pf OpenAIProvider defaultConfig ?tools None (Some store_get) None ?st"
    unfolding runToolLoop_def init ..
  have one: "(1::nat) = Suc 0" by simp
  show ?thesis
    unfolding one run t
    by (simp add: OpenAIProvider_def openai_formatAssistantMessage_def
          openai_formatToolResults_def complete_def store_get_def store_and_more_def dq_def)
qed

subsection \<open>Passes of the loop\<close>

lemma loop_body_batch:
  assumes fetched: "fetch pf (buildRequest provider (request_params cfg tools schema systemPrompt (messages st)))
                      (world st) = (Response response, w_fetched)"
      and ok: "resp_ok response"
      and parsed: "parseResponse provider (resp_payload response) (stream cfg) = Inr pr"
      and requested: "filter complete (pr_toolCalls pr) \<noteq> []"
      and executed: "exec_tool_calls (JSON_parse pf) (maxToolResultLength cfg) tools
                       (filter complete (pr_toolCalls pr)) w_fetched = (toolResults, w')"
  shows "loop_body pf provider cfg tools schema returnStore systemPrompt st
           = (let st' = \<lparr>messages = messages st
                            @ [formatAssistantMessage provider (pr_content pr)
                                 (filter complete (pr_toolCalls pr))]
                            @ formatToolResults provider toolResults,
                          iterations = iterations st, world = w',
                          sent = sent st @ [buildRequest provider
                                   (request_params cfg tools schema systemPrompt (messages st))]\<rparr>
              in case returnStore of
                   Some get \<Rightarrow> if get w' \<noteq> Undefined then Done (Inr (get w')) st'
                               else Continue (st'\<lparr>iterations := iterations st + 1\<rparr>)
                 | None \<Rightarrow> Continue (st'\<lparr>iterations := iterations st + 1\<rparr>))"
  using assms by (simp add: loop_body_def handle_response_def Let_def split: option.splits)

lemma exec_tool_calls_append:
  "exec_tool_calls parse mx tools (xs @ ys) w
     = (case exec_tool_calls parse mx tools xs w of
          (rs1, w1) \<Rightarrow> (case exec_tool_calls parse mx tools ys w1 of
                           (rs2, w2) \<Rightarrow> (rs1 @ rs2, w2)))"
  by (induction xs arbitrary: w) (auto split: prod.splits)

lemma error_payload_json:
  \<open>error_payload msg = ''{"error":'' @ quote msg @ ''}''\<close>
  by (simp add: error_payload_def JSON_stringify_def wrap_def str_of_def quote_def quote_char_def
        dq_def backslash_def)

lemma run_loop_exhausted:
  "maxIterations cfg = Some cap \<Longrightarrow> cap \<le> iterations st
     \<Longrightarrow> run_loop fuel pf provider cfg tools schema returnStore systemPrompt st
         = Some (Inl (MaxIterationsReached cap), st)"
  by (subst run_loop.simps) simp

lemma run_loop_step:
  "(case maxIterations cfg of None \<Rightarrow> True | Some cap \<Rightarrow> iterations st < cap)
     \<Longrightarrow> run_loop (Suc fuel) pf provider cfg tools schema returnStore systemPrompt st
         = (case loop_body pf provider cfg tools schema returnStore systemPrompt st of
              Done r s \<Rightarrow> Some (r, s)
            | Continue s \<Rightarrow> run_loop fuel pf provider cfg tools schema returnStore systemPrompt s)"
  by (subst run_loop.simps) simp

lemma loop_body_final:
  assumes fetched: "fetch pf (buildRequest provider (request_params cfg tools None systemPrompt (messages st)))
                      (world st) = (Response response, w_fetched)"
      and ok: "resp_ok response"
      and parsed: "parseResponse provider (resp_payload response) (stream cfg) = Inr pr"
      and none: "filter complete (pr_toolCalls pr) = []"
  shows "loop_body pf provider cfg tools None returnStore systemPrompt st
           = Done (Inr (Str (pr_content pr)))
               \<lparr>messages = messages st @ [formatAssistantMessage provider (pr_content pr) []],
                iterations = iterations st, world = w_fetched,
                sent = sent st @ [buildRequest provider
                         (request_params cfg tools None systemPrompt (messages st))]\<rparr>"
  using assms by (simp add: loop_body_def handle_response_def Let_def)

lemma exec_tool_call_invariant:
  assumes tools_inv: "\<forall>t \<in> set tools. \<forall>args w. I w \<longrightarrow> I (snd (tool_impl t args w))"
      and "I w"
  shows "I (snd (exec_tool_call parse mx tools tc w))"
proof (cases "find (\<lambda>t. tool_name (tool_meta t) = tc_name tc) tools")
  case None
  then show ?thesis using assms(2) by (simp add: exec_tool_call_def)
next
  case (Some toolFn)
  then have "toolFn \<in> set tools" by (auto simp: find_Some_iff)
  then have "I (snd (tool_impl toolFn args w))" for args
    using assms by blast
  then show ?thesis
    using Some assms(2)
    by (auto simp: exec_tool_call_def split: sum.splits prod.splits)
       (metis snd_conv)+
qed

lemma exec_tool_calls_invariant:
  assumes tools_inv: "\<forall>t \<in> set tools. \<forall>args w. I w \<longrightarrow> I (snd (tool_impl t args w))"
      and "I w"
  shows "I (snd (exec_tool_calls parse mx tools tcs w))"
  using assms(2)
proof (induction tcs arbitrary: w)
  case Nil
  then show ?case by simp
next
  case (Cons tc tcs)
  have "I (snd (exec_tool_call parse mx tools tc w))"
    using tools_inv Cons.prems by (rule exec_tool_call_invariant)
  then have "I (snd (exec_tool_calls parse mx tools tcs (snd (exec_tool_call parse mx tools tc w))))"
    by (rule Cons.IH)
  then show ?case by (auto split: prod.splits)
qed

text \<open>One pass under the hypotheses of the cap theorem goes on.\<close>

lemma loop_body_goes_on:
  assumes responds: "\<forall>req w. I w \<longrightarrow>
              (\<exists>response w1 pr. fetch pf req w = (Response response, w1) \<and> I w1 \<and> resp_ok response
                 \<and> parseResponse provider (resp_payload response) (stream cfg) = Inr pr
                 \<and> filter complete (pr_toolCalls pr) \<noteq> [])"
      and tools_inv: "\<forall>t \<in> set tools. \<forall>args w. I w \<longrightarrow> I (snd (tool_impl t args w))"
      and store_empty: "\<forall>get w. returnStore = Some get \<longrightarrow> I w \<longrightarrow> get w = Undefined"
      and inv: "I (world st)"
  shows "\<exists>st'. loop_body pf provider cfg tools schema returnStore systemPrompt st = Continue st'
               \<and> I (world st') \<and> iterations st' = iterations st + 1
               \<and> length (sent st') = length (sent st) + 1"
proof -
  let ?req = "buildRequest provider (request_params cfg tools schema systemPrompt (messages st))"
  from responds inv obtain response w1 pr where
    f: "fetch pf ?req (world st) = (Response response, w1)" and i1: "I w1" and ok: "resp_ok response"
    and p: "parseResponse provider (resp_payload response) (stream cfg) = Inr pr"
    and ne: "filter complete (pr_toolCalls pr) \<noteq> []"
    by blast
  obtain rs w' where e: "exec_tool_calls (JSON_parse pf) (maxToolResultLength cfg) tools
                           (filter complete (pr_toolCalls pr)) w1 = (rs, w')"
    by (cases "exec_tool_calls (JSON_parse pf) (maxToolResultLength cfg) tools
                 (filter complete (pr_toolCalls pr)) w1")
  have i': "I w'"
    using exec_tool_calls_invariant [OF tools_inv i1, of "JSON_parse pf" "maxToolResultLength cfg"
            "filter complete (pr_toolCalls pr)"] e by simp
  have empty: "returnStore = Some get \<Longrightarrow> get w' = Undefined" for get
    using store_empty i' by blast
  show ?thesis
    using loop_body_batch [OF f ok p ne e, of returnStore] i' empty
    by (cases returnStore) (auto simp: Let_def)
qed

lemma run_loop_to_cap:
  assumes responds: "\<forall>req w. I w \<longrightarrow>
              (\<exists>response w1 pr. fetch pf req w = (Response response, w1) \<and> I w1 \<and> resp_ok response
                 \<and> parseResponse provider (resp_payload response) (stream cfg) = Inr pr
                 \<and> filter complete (pr_toolCalls pr) \<noteq> [])"
      and tools_inv: "\<forall>t \<in> set tools. \<forall>args w. I w \<longrightarrow> I (snd (tool_impl t args w))"
      and store_empty: "\<forall>get w. returnStore = Some get \<longrightarrow> I w \<longrightarrow> get w = Undefined"
      and cap: "maxIterations cfg = Some n"
  shows "I (world st) \<Longrightarrow> iterations st \<le> n \<Longrightarrow> n - iterations st \<le> fuel
           \<Longrightarrow> \<exists>st'. run_loop fuel pf provider cfg tools schema returnStore systemPrompt st
                        = Some (Inl (MaxIterationsReached n), st')
                    \<and> iterations st' = n
                    \<and> length (sent st') = length (sent st) + (n - iterations st)"
proof (induction fuel arbitrary: st)
  case 0
  then have "n \<le> iterations st" by simp
  then show ?case using cap 0 by (simp add: run_loop_exhausted)
next
  case (Suc fuel)
  show ?case
  proof (cases "iterations st < n")
    case False
    then show ?thesis using cap Suc.prems by (simp add: run_loop_exhausted)
  next
    case True
    from loop_body_goes_on [OF responds tools_inv store_empty Suc.prems(1), of schema systemPrompt]
    obtain st1 where b: "loop_body pf provider cfg tools schema returnStore systemPrompt st = Continue st1"
      and i1: "I (world st1)" and it: "iterations st1 = iterations st + 1"
      and se: "length (sent st1) = length (sent st) + 1"
      by blast
    have "iterations st1 \<le> n" "n - iterations st1 \<le> fuel"
      using True it Suc.prems by simp_all
    from Suc.IH [OF i1 this]
    obtain st' where r: "run_loop fuel pf provider cfg tools schema returnStore systemPrompt st1
                           = Some (Inl (MaxIterationsReached n), st')"
      and "iterations st' = n"
      and "length (sent st') = length (sent st1) + (n - iterations st1)"
      by blast
    moreover have "run_loop (Suc fuel) pf provider cfg tools schema returnStore systemPrompt st
                     = run_loop fuel pf provider cfg tools schema returnStore systemPrompt st1"
      using True cap b by (simp add: run_loop_step)
    ultimately show ?thesis using se it True by auto
  qed
qed

lemma run_loop_unbounded:
  assumes responds: "\<forall>req w. I w \<longrightarrow>
              (\<exists>response w1 pr. fetch pf req w = (Response response, w1) \<and> I w1 \<and> resp_ok response
                 \<and> parseResponse provider (resp_payload response) (stream cfg) = Inr pr
                 \<and> filter complete (pr_toolCalls pr) \<noteq> [])"
      and tools_inv: "\<forall>t \<in> set tools. \<forall>args w. I w \<longrightarrow> I (snd (tool_impl t args w))"
      and store_empty: "\<forall>get w. returnStore = Some get \<longrightarrow> I w \<longrightarrow> get w = Undefined"
      and cap: "maxIterations cfg = None"
  shows "I (world st) \<Longrightarrow> run_loop fuel pf provider cfg tools schema returnStore systemPrompt st = None"
proof (induction fuel arbitrary: st)
  case 0
  then show ?case using cap by (subst run_loop.simps) simp
next
  case (Suc fuel)
  from loop_body_goes_on [OF responds tools_inv store_empty Suc.prems(1), of schema systemPrompt]
  obtain st1 where b: "loop_body pf provider cfg tools schema returnStore systemPrompt st = Continue st1"
    and i1: "I (world st1)"
    by blast
  show ?case using cap b Suc.IH [OF i1] by (simp add: run_loop_step)
qed

text \<open>Why a pass ends the loop.\<close>

lemma loop_body_Done:
  assumes "loop_body pf provider cfg tools schema returnStore systemPrompt st = Done r st'"
  shows "(\<exists>e. r = Inl e \<and> (\<forall>k. e \<noteq> MaxIterationsReached k))
       \<or> (\<exists>content msgs. messages st' = msgs @ [formatAssistantMessage provider content []])
       \<or> (\<exists>get. returnStore = Some get \<and> r = Inr (get (world st')) \<and> get (world st') \<noteq> Undefined)"
  using assms
  by (auto simp: loop_body_def handle_response_def Let_def
           split: prod.splits fetch_outcome.splits sum.splits if_splits option.splits)

lemma run_loop_ends:
  assumes cap: "maxIterations cfg = None"
  shows "run_loop fuel pf provider cfg tools schema returnStore systemPrompt st = Some (r, st')
     \<Longrightarrow> (\<exists>e. r = Inl e \<and> (\<forall>k. e \<noteq> MaxIterationsReached k))
       \<or> (\<exists>content msgs. messages st' = msgs @ [formatAssistantMessage provider content []])
       \<or> (\<exists>get. returnStore = Some get \<and> r = Inr (get (world st')) \<and> get (world st') \<noteq> Undefined)"
proof (induction fuel arbitrary: st)
  case 0
  then show ?case using cap by (subst (asm) run_loop.simps) simp
next
  case (Suc fuel)
  show ?case
  proof (cases "loop_body pf provider cfg tools schema returnStore systemPrompt st")
    case (Done r1 s1)
    then have "r1 = r" "s1 = st'" using Suc.prems cap by (simp_all add: run_loop_step)
    then show ?thesis using loop_body_Done Done by blast
  next
    case (Continue s1)
    then have "run_loop fuel pf provider cfg tools schema returnStore systemPrompt s1 = Some (r, st')"
      using Suc.prems cap by (simp add: run_loop_step)
    then show ?thesis by (rule Suc.IH)
  qed
qed

subsection \<open>The example platforms\<close>

lemma always_fetch: "fetch (always outcome) req w = (outcome, w)"
  by (simp add: always_def)

lemma always_parse: "JSON_parse (always outcome) = mock_parse"
  by (simp add: always_def)

lemma mock_ok: "resp_ok (mock_response content toolCalls)"
  by (simp add: mock_response_def)

lemma mock_parsed:
  "parseResponse OpenAIProvider (resp_payload (mock_response content toolCalls)) streaming
     = Inr \<lparr>pr_content = content,
            pr_toolCalls = map to_info (case toolCalls of None \<Rightarrow> [] | Some tcs \<Rightarrow> tcs)\<rparr>"
  by (simp add: OpenAIProvider_def openai_parseResponse_def mock_response_def or_empty_def
        to_info_def)

lemma complete_to_info:
  "complete (to_info tc) = (otc_id tc \<noteq> [] \<and> otc_function_name tc \<noteq> [])"
  by (simp add: complete_def to_info_def)

lemma initial_state:
  "runToolLoop fuel pf OpenAIProvider (Text prompt) tools cfg schema returnStore systemPrompt None None w
     = run_loop fuel pf OpenAIProvider cfg tools schema returnStore systemPrompt
         \<lparr>messages = [OpenAIUser (Text prompt)], iterations = 0, world = w, sent = []\<rparr>"
  by (simp add: runToolLoop_def OpenAIProvider_def openai_formatUserMessage_def)

lemma mock_parse_empty: "mock_parse ''{}'' = Inr (Obj [])"
  by (simp add: mock_parse_def parse_table_def)

lemma any_tool_call:
  assumes "find (\<lambda>t. tool_name (tool_meta t) = nm) tools = Some (any_tool nm v)"
  shows "exec_tool_call mock_parse mx tools \<lparr>tc_id = i, tc_name = nm, tc_arguments = ''{}''\<rparr> w
           = (\<lparr>tr_id = i, tr_name = nm,
               tr_result = truncate_result mx (result_string (resolveIterableResult v))\<rparr>, w)"
proof -
  let ?tc = "\<lparr>tc_id = i, tc_name = nm, tc_arguments = ''{}''\<rparr>"
  have f: "find (\<lambda>t. tool_name (tool_meta t) = tc_name ?tc) tools = Some (any_tool nm v)"
    using assms by simp
  have p: "mock_parse (tc_arguments ?tc) = Inr (Obj [])"
    by (simp add: mock_parse_empty)
  have r: "tool_impl (any_tool nm v) (map (obj_get []) (paramNames (tool_meta (any_tool nm v)))) w
             = (Inr v, w)"
    by (simp add: any_tool_def)
  show ?thesis
    using exec_tool_call_returned [where parse = mock_parse and toolCall = ?tc, OF f p r, of mx]
    by simp
qed

text \<open>The unknown-tool scenario of the tests: no tools are registered.\<close>

lemma unknown_batch:
  "exec_tool_calls mock_parse None ([] :: 'w tool_function list)
     (filter complete (map to_info unknown_call)) (w :: 'w)
   = ([\<lparr>tr_id = ''call1'', tr_name = ''unknownTool'',
        tr_result = error_payload ''Unknown tool: unknownTool''\<rparr>], w)"
  by (simp add: unknown_call_def to_info_def complete_def exec_tool_call_unknown)

lemma unknown_payload:
  \<open>error_payload ''Unknown tool: unknownTool'' = ''{"error":"Unknown tool: unknownTool"}''\<close>
  by (simp add: error_payload_json quote_def quote_char_def dq_def backslash_def)

lemma scripted_fetch: "fetch scripted req (r # rs) = (r, rs)"
  by (simp add: scripted_def)

lemma scripted_parse: "JSON_parse scripted = mock_parse"
  by (simp add: scripted_def)

text \<open>The store scenario: the model calls the store and a further tool in one turn.\<close>

lemma person_keys: "propKeys (resolveSchema person_schema) = [''name'', ''bio'']"
  by (simp add: propKeys_def resolveSchema_def simpleSchemaToJsonSchema_def person_schema_def
        cleanKey_def isOptional_def)

lemma person_stored:
  "store_fn (resolveSchema person_schema) [Str ''Ann'', Undefined] None
     = (Inr (Str ''Value stored successfully''), Some (Obj [(''name'', Str ''Ann'')]))"
  unfolding store_fn_def person_keys
  by (simp add: resolveSchema_def createSimpleSchemaParser_def person_schema_def cleanKey_def
        isOptional_def)

lemma store_call:
  \<open>exec_tool_call mock_parse None store_tools
     \<lparr>tc_id = ''call1'', tc_name = ''return_value'', tc_arguments = ''{"name":"Ann"}''\<rparr> None
   = (\<lparr>tr_id = ''call1'', tr_name = ''return_value'', tr_result = ''Value stored successfully''\<rparr>,
      Some (Obj [(''name'', Str ''Ann'')]))\<close>
proof -
  let ?tc = \<open>\<lparr>tc_id = ''call1'', tc_name = ''return_value'', tc_arguments = ''{"name":"Ann"}''\<rparr>\<close>
  let ?store = "createStore ''return_value'' (resolveSchema person_schema)"
  have f: "find (\<lambda>t. tool_name (tool_meta t) = tc_name ?tc) store_tools = Some ?store"
    by (simp add: store_tools_def createStore_def)
  have p: "mock_parse (tc_arguments ?tc) = Inr (Obj [(''name'', Str ''Ann'')])"
    by (simp add: mock_parse_def parse_table_def)
  have n: "paramNames (tool_meta ?store) = [''name'', ''bio'']"
    using person_keys by (simp add: paramNames_def propKeys_def createStore_def)
  have r: "tool_impl ?store (map (obj_get [(''name'', Str ''Ann'')]) (paramNames (tool_meta ?store))) None
             = (Inr (Str ''Value stored successfully''), Some (Obj [(''name'', Str ''Ann'')]))"
    unfolding n using person_stored by (simp add: createStore_def)
  show ?thesis
    unfolding exec_tool_call_returned [where parse = mock_parse and toolCall = ?tc, OF f p r]
    by (simp add: truncate_result_def result_string_def)
qed

lemma store_batch:
  "exec_tool_calls mock_parse None store_tools (filter complete (map to_info store_and_more)) None
   = ([\<lparr>tr_id = ''call1'', tr_name = ''return_value'', tr_result = ''Value stored successfully''\<rparr>,
       \<lparr>tr_id = ''call2'', tr_name = ''lookup'', tr_result = ''OK''\<rparr>],
      Some (Obj [(''name'', Str ''Ann'')]))"
proof -
  have f: "find (\<lambda>t. tool_name (tool_meta t) = ''lookup'') store_tools = Some (any_tool ''lookup'' Undefined)"
    by (simp add: store_tools_def createStore_def any_tool_def)
  show ?thesis
    using store_call any_tool_call [OF f, of None "''call2''"]
    by (simp add: store_and_more_def to_info_def complete_def truncate_result_def
          result_string_def)
qed

subsection \<open>Unknown tools\<close>

text \<open>
  Claim C7, as stated, has the loop go on to the next round-trip after every unknown tool
  call, without throwing. With an iteration cap of 1 and a model that asks for an
  unregistered tool, the loop ends after that one round-trip with the iteration-exhaustion
  error: one request is sent, and the loop throws.
\<close>

theorem unknown_tool_next_round_trip_counterexample:
  "map_option fst
     (runToolLoop 5 (always (mockLLMResponse [] (Some unknown_call))) OpenAIProvider
        (Text ''Use unknown'') ([] :: unit tool_function list)
        (defaultConfig\<lparr>maxIterations := Some 1\<rparr>) None None None None None ())
   = Some (Inl (MaxIterationsReached 1))
   \<and> map_option (length \<circ> sent \<circ> snd)
     (runToolLoop 5 (always (mockLLMResponse [] (Some unknown_call))) OpenAIProvider
        (Text ''Use unknown'') ([] :: unit tool_function list)
        (defaultConfig\<lparr>maxIterations := Some 1\<rparr>) None None None None None ())
   = Some 1"
proof -
  let ?pf = "always (mockLLMResponse [] (Some unknown_call))
               :: (openai_message list openai_body request,
                   (openai_chunk, openai_data) provider_response, unit) platform"
  let ?cfg = "defaultConfig\<lparr>maxIterations := Some 1\<rparr>"
  let ?tools = "[] :: unit tool_function list"
  let ?st = "\<lparr>messages = [OpenAIUser (Text ''Use unknown'')], iterations = 0, world = (),
              sent = ([] :: openai_message list openai_body request list)\<rparr>"
  let ?pr = "\<lparr>pr_content = [], pr_toolCalls = map to_info unknown_call\<rparr>"
  have f: "fetch ?pf (buildRequest OpenAIProvider (request_params ?cfg ?tools None None (messages ?st)))
             (world ?st) = (Response (mock_response [] (Some unknown_call)), ())"
    by (simp add: always_fetch mockLLMResponse_def)
  have p: "parseResponse OpenAIProvider (resp_payload (mock_response [] (Some unknown_call))) (stream ?cfg)
             = Inr ?pr"
    by (simp add: mock_parsed)
  have ne: "filter complete (pr_toolCalls ?pr) \<noteq> []"
    by (simp add: unknown_call_def complete_to_info)
  have e: "exec_tool_calls (JSON_parse ?pf) (maxToolResultLength ?cfg) ?tools
             (filter complete (pr_toolCalls ?pr)) ()
           = ([\<lparr>tr_id = ''call1'', tr_name = ''unknownTool'',
                tr_result = error_payload ''Unknown tool: unknownTool''\<rparr>], ())"
    using unknown_batch [of "()"] by (simp add: always_parse defaultConfig_def)
  note body = loop_body_batch [where pf = ?pf and provider = OpenAIProvider and cfg = ?cfg
      and tools = ?tools and schema = None and systemPrompt = None and st = ?st and pr = ?pr
      and returnStore = None and response = "mock_response [] (Some unknown_call)"
      and w_fetched = "()" and w' = "()", OF f mock_ok p ne e]
  have it: "case maxIterations ?cfg of None \<Rightarrow> True | Some cap \<Rightarrow> iterations ?st < cap"
    by simp
  have five: "(5::nat) = Suc 4" by simp
  have "run_loop (Suc 4) ?pf OpenAIProvider ?cfg ?tools None None None ?st
          = Some (Inl (MaxIterationsReached 1),
                  \<lparr>messages = messages ?st
                      @ [formatAssistantMessage OpenAIProvider [] (filter complete (pr_toolCalls ?pr))]
                      @ formatToolResults OpenAIProvider
                          [\<lparr>tr_id = ''call1'', tr_name = ''unknownTool'',
                            tr_result = error_payload ''Unknown tool: unknownTool''\<rparr>],
                    iterations = 1, world = (),
                    sent = [buildRequest OpenAIProvider
                              (request_params ?cfg ?tools None None (messages ?st))]\<rparr>)"
    unfolding run_loop_step [OF it] body
    by (simp add: Let_def run_loop_exhausted)
  then show ?thesis
    unfolding initial_state five by simp
qed

text \<open>
  Claim C7, amended. A dispatched tool call whose name finds no registered tool gives
  exactly one tool result, with the call's id and name and the JSON string
  \<^verbatim>\<open>{"error":"Unknown tool: <name>"}\<close>, and leaves the world as it is. The result
  stands in the batch's results at the position of the call, the assistant message and
  all results of the batch are appended to the history, and the pass ends as the pass of
  any other batch: the loop returns the value of the return store if that is filled, and
  goes back to the head of the loop with the iteration counted otherwise. There the loop
  raises the iteration-exhaustion error if the cap is reached, and runs the next pass,
  which sends the next request, if it is not. No error for the unknown tool is raised.
\<close>

theorem unknown_tool_recoverable:
  assumes iterate: "case maxIterations cfg of None \<Rightarrow> True | Some cap \<Rightarrow> iterations st < cap"
      and fetched: "fetch pf (buildRequest provider (request_params cfg tools schema systemPrompt (messages st)))
                      (world st) = (Response response, w_fetched)"
      and ok: "resp_ok response"
      and parsed: "parseResponse provider (resp_payload response) (stream cfg) = Inr pr"
      and batch: "filter complete (pr_toolCalls pr) = before @ toolCall # rest"
      and unknown: "find (\<lambda>t. tool_name (tool_meta t) = tc_name toolCall) tools = None"
      and executed: "exec_tool_calls (JSON_parse pf) (maxToolResultLength cfg) tools
                       (before @ toolCall # rest) w_fetched = (toolResults, w')"
  shows \<open>exec_tool_call (JSON_parse pf) (maxToolResultLength cfg) tools toolCall w
           = (\<lparr>tr_id = tc_id toolCall, tr_name = tc_name toolCall,
               tr_result = ''{"error":'' @ quote (''Unknown tool: '' @ tc_name toolCall) @ ''}''\<rparr>, w)
         \<and> length toolResults = length before + 1 + length rest
         \<and> toolResults ! length before
             = \<lparr>tr_id = tc_id toolCall, tr_name = tc_name toolCall,
                tr_result = ''{"error":'' @ quote (''Unknown tool: '' @ tc_name toolCall) @ ''}''\<rparr>
         \<and> run_loop (Suc fuel) pf provider cfg tools schema returnStore systemPrompt st
             = (let st' = \<lparr>messages = messages st
                              @ [formatAssistantMessage provider (pr_content pr)
                                   (before @ toolCall # rest)]
                              @ formatToolResults provider toolResults,
                            iterations = iterations st, world = w',
                            sent = sent st @ [buildRequest provider
                                     (request_params cfg tools schema systemPrompt (messages st))]\<rparr>
                in case returnStore of
                     Some get \<Rightarrow>
                       if get w' \<noteq> Undefined then Some (Inr (get w'), st')
                       else run_loop fuel pf provider cfg tools schema returnStore systemPrompt
                              (st'\<lparr>iterations := iterations st + 1\<rparr>)
                   | None \<Rightarrow>
                       run_loop fuel pf provider cfg tools schema returnStore systemPrompt
                         (st'\<lparr>iterations := iterations st + 1\<rparr>))
         \<and> (\<forall>st'' cap. maxIterations cfg = Some cap \<and> cap \<le> iterations st''
               \<longrightarrow> run_loop fuel pf provider cfg tools schema returnStore systemPrompt st''
                     = Some (Inl (MaxIterationsReached cap), st''))
         \<and> (\<forall>st''. (case maxIterations cfg of None \<Rightarrow> True | Some cap \<Rightarrow> iterations st'' < cap)
               \<longrightarrow> run_loop (Suc fuel) pf provider cfg tools schema returnStore systemPrompt st''
                     = (case loop_body pf provider cfg tools schema returnStore systemPrompt st'' of
                          Done r s \<Rightarrow> Some (r, s)
                        | Continue s \<Rightarrow>
                            run_loop fuel pf provider cfg tools schema returnStore systemPrompt s))\<close>
proof (intro conjI)
  let ?r = "\<lparr>tr_id = tc_id toolCall, tr_name = tc_name toolCall,
              tr_result = error_payload (''Unknown tool: '' @ tc_name toolCall)\<rparr>"
  have one: "exec_tool_call (JSON_parse pf) (maxToolResultLength cfg) tools toolCall v = (?r, v)" for v
    using unknown by (rule exec_tool_call_unknown)
  show \<open>exec_tool_call (JSON_parse pf) (maxToolResultLength cfg) tools toolCall w
           = (\<lparr>tr_id = tc_id toolCall, tr_name = tc_name toolCall,
               tr_result = ''{"error":'' @ quote (''Unknown tool: '' @ tc_name toolCall) @ ''}''\<rparr>, w)\<close>
    using one [of w] by (simp add: error_payload_json)
  obtain rs1 w1 where e1: "exec_tool_calls (JSON_parse pf) (maxToolResultLength cfg) tools before w_fetched = (rs1, w1)"
    by (cases "exec_tool_calls (JSON_parse pf) (maxToolResultLength cfg) tools before w_fetched")
  obtain rs2 w2 where e2: "exec_tool_calls (JSON_parse pf) (maxToolResultLength cfg) tools rest w1 = (rs2, w2)"
    by (cases "exec_tool_calls (JSON_parse pf) (maxToolResultLength cfg) tools rest w1")
  have results: "toolResults = rs1 @ ?r # rs2"
    using executed e1 e2 one [of w1] by (simp add: exec_tool_calls_append)
  have l1: "length rs1 = length before"
    using exec_tool_calls_length [of "JSON_parse pf" "maxToolResultLength cfg" tools before w_fetched] e1
    by simp
  have l2: "length rs2 = length rest"
    using exec_tool_calls_length [of "JSON_parse pf" "maxToolResultLength cfg" tools rest w1] e2
    by simp
  show "length toolResults = length before + 1 + length rest"
    using results l1 l2 by simp
  show \<open>toolResults ! length before
             = \<lparr>tr_id = tc_id toolCall, tr_name = tc_name toolCall,
                tr_result = ''{"error":'' @ quote (''Unknown tool: '' @ tc_name toolCall) @ ''}''\<rparr>\<close>
    using results l1 by (simp add: nth_append error_payload_json)
  have requested: "filter complete (pr_toolCalls pr) \<noteq> []"
    using batch by simp
  note body = loop_body_batch [OF fetched ok parsed requested executed [folded batch],
                 unfolded batch]
  show "run_loop (Suc fuel) pf provider cfg tools schema returnStore systemPrompt st
             = (let st' = \<lparr>messages = messages st
                              @ [formatAssistantMessage provider (pr_content pr)
                                   (before @ toolCall # rest)]
                              @ formatToolResults provider toolResults,
                            iterations = iterations st, world = w',
                            sent = sent st @ [buildRequest provider
                                     (request_params cfg tools schema systemPrompt (messages st))]\<rparr>
                in case returnStore of
                     Some get \<Rightarrow>
                       if get w' \<noteq> Undefined then Some (Inr (get w'), st')
                       else run_loop fuel pf provider cfg tools schema returnStore systemPrompt
                              (st'\<lparr>iterations := iterations st + 1\<rparr>)
                   | None \<Rightarrow>
                       run_loop fuel pf provider cfg tools schema returnStore systemPrompt
                         (st'\<lparr>iterations := iterations st + 1\<rparr>))"
    using iterate
    by (simp add: run_loop_step body Let_def split: option.splits)
  show "\<forall>st'' cap. maxIterations cfg = Some cap \<and> cap \<le> iterations st''
               \<longrightarrow> run_loop fuel pf provider cfg tools schema returnStore systemPrompt st''
                     = Some (Inl (MaxIterationsReached cap), st'')"
    by (simp add: run_loop_exhausted)
  show "\<forall>st''. (case maxIterations cfg of None \<Rightarrow> True | Some cap \<Rightarrow> iterations st'' < cap)
               \<longrightarrow> run_loop (Suc fuel) pf provider cfg tools schema returnStore systemPrompt st''
                     = (case loop_body pf provider cfg tools schema returnStore systemPrompt st'' of
                          Done r s \<Rightarrow> Some (r, s)
                        | Continue s \<Rightarrow>
                            run_loop fuel pf provider cfg tools schema returnStore systemPrompt s)"
    using run_loop_step by blast
qed

text \<open>
  The scenario of the tests: the model asks for \<^verbatim>\<open>unknownTool\<close>, no tool is registered,
  and the model then answers. The loop sends a second request and returns the answer; the
  history holds the error payload between the two assistant messages.
\<close>

theorem unknown_tool_recoverable_witness:
  \<open>map_option fst
     (runToolLoop 2 scripted OpenAIProvider (Text ''Use unknown'') [] defaultConfig
        None None None None None
        [mockLLMResponse [] (Some unknown_call), mockLLMResponse ''Unknown tool error'' None])
   = Some (Inr (Str ''Unknown tool error''))
   \<and> map_option (messages \<circ> snd)
     (runToolLoop 2 scripted OpenAIProvider (Text ''Use unknown'') [] defaultConfig
        None None None None None
        [mockLLMResponse [] (Some unknown_call), mockLLMResponse ''Unknown tool error'' None])
   = Some [OpenAIUser (Text ''Use unknown''),
           OpenAIAssistant None (Some unknown_call),
           OpenAITool ''call1'' ''{"error":"Unknown tool: unknownTool"}'',
           OpenAIAssistant (Some ''Unknown tool error'') None]
   \<and> map_option (length \<circ> sent \<circ> snd)
     (runToolLoop 2 scripted OpenAIProvider (Text ''Use unknown'') [] defaultConfig
        None None None None None
        [mockLLMResponse [] (Some unknown_call), mockLLMResponse ''Unknown tool error'' None])
   = Some 2\<close>
proof -
  let ?final = "mockLLMResponse ''Unknown tool error'' None"
  let ?pf = "scripted
               :: (openai_message list openai_body request,
                   (openai_chunk, openai_data) provider_response,
                   (openai_chunk, openai_data) provider_response fetch_outcome list) platform"
  let ?tools = "[] :: (openai_chunk, openai_data) provider_response fetch_outcome list tool_function list"
  let ?st = "\<lparr>messages = [OpenAIUser (Text ''Use unknown'')], iterations = 0,
              world = [mockLLMResponse [] (Some unknown_call), ?final],
              sent = ([] :: openai_message list openai_body request list)\<rparr>"
  let ?pr = "\<lparr>pr_content = [], pr_toolCalls = map to_info unknown_call\<rparr>"
  let ?tc = "\<lparr>tc_id = ''call1'', tc_name = ''unknownTool'', tc_arguments = ''{}''\<rparr>"
  let ?results = "[\<lparr>tr_id = ''call1'', tr_name = ''unknownTool'',
                    tr_result = error_payload ''Unknown tool: unknownTool''\<rparr>]"
  let ?req1 = "buildRequest OpenAIProvider (request_params defaultConfig ?tools None None (messages ?st))"
  let ?st1 = "\<lparr>messages = messages ?st @ [formatAssistantMessage OpenAIProvider (pr_content ?pr) ([] @ ?tc # [])]
                            @ formatToolResults OpenAIProvider ?results,
               iterations = iterations ?st + 1, world = [?final], sent = sent ?st @ [?req1]\<rparr>"
  have it: "case maxIterations defaultConfig of None \<Rightarrow> True | Some cap \<Rightarrow> iterations ?st < cap"
    by (simp add: defaultConfig_def)
  have f: "fetch ?pf ?req1 (world ?st) = (Response (mock_response [] (Some unknown_call)), [?final])"
    by (simp add: scripted_fetch mockLLMResponse_def)
  have p: "parseResponse OpenAIProvider (resp_payload (mock_response [] (Some unknown_call)))
             (stream defaultConfig) = Inr ?pr"
    by (simp add: mock_parsed)
  have b: "filter complete (pr_toolCalls ?pr) = [] @ ?tc # []"
    by (simp add: unknown_call_def to_info_def complete_def)
  have u: "find (\<lambda>t. tool_name (tool_meta t) = tc_name ?tc) ?tools = None"
    by simp
  have e: "exec_tool_calls (JSON_parse ?pf) (maxToolResultLength defaultConfig) ?tools
             ([] @ ?tc # []) [?final] = (?results, [?final])"
    using unknown_batch [of "[?final]"]
    by (simp add: scripted_parse defaultConfig_def unknown_call_def to_info_def complete_def)
  note t = unknown_tool_recoverable [where pf = ?pf and provider = OpenAIProvider
      and cfg = defaultConfig and tools = ?tools and schema = None and systemPrompt = None
      and st = ?st and pr = ?pr and response = "mock_response [] (Some unknown_call)"
      and w_fetched = "[?final]" and w' = "[?final]" and before = "[]" and rest = "[]"
      and toolCall = ?tc and toolResults = ?results and returnStore = None and fuel = "Suc 0",
      OF it f mock_ok p b u e]
  have first: "run_loop (Suc (Suc 0)) ?pf OpenAIProvider defaultConfig ?tools None None None ?st
                 = run_loop (Suc 0) ?pf OpenAIProvider defaultConfig ?tools None None None ?st1"
    using t [THEN conjunct2, THEN conjunct2, THEN conjunct2, THEN conjunct1]
    by (simp add: Let_def)
  have it1: "case maxIterations defaultConfig of None \<Rightarrow> True | Some cap \<Rightarrow> iterations ?st1 < cap"
    by (simp add: defaultConfig_def)
  have f1: "fetch ?pf (buildRequest OpenAIProvider
                         (request_params defaultConfig ?tools None None (messages ?st1)))
              (world ?st1) = (Response (mock_response ''Unknown tool error'' None), [])"
    by (simp add: scripted_fetch mockLLMResponse_def)
  have p1: "parseResponse OpenAIProvider (resp_payload (mock_response ''Unknown tool error'' None))
              (stream defaultConfig) = Inr \<lparr>pr_content = ''Unknown tool error'', pr_toolCalls = []\<rparr>"
    by (simp add: mock_parsed)
  note last = loop_body_final [where pf = ?pf and provider = OpenAIProvider and cfg = defaultConfig
      and tools = ?tools and systemPrompt = None and st = ?st1
      and response = "mock_response ''Unknown tool error'' None" and w_fetched = "[]"
      and pr = "\<lparr>pr_content = ''Unknown tool error'', pr_toolCalls = []\<rparr>" and returnStore = None,
      OF f1 mock_ok p1]
  have two: "(2::nat) = Suc (Suc 0)" by simp
  have second: "run_loop (Suc 0) ?pf OpenAIProvider defaultConfig ?tools None None None ?st1
          = Some (Inr (Str ''Unknown tool error''),
                  \<lparr>messages = messages ?st1 @ [formatAssistantMessage OpenAIProvider ''Unknown tool error'' []],
                   iterations = iterations ?st1, world = [],
                   sent = sent ?st1 @ [buildRequest OpenAIProvider
                            (request_params defaultConfig ?tools None None (messages ?st1))]\<rparr>)"
    unfolding run_loop_step [OF it1] using last by simp
  show ?thesis
    unfolding initial_state two first second
    by (simp add: OpenAIProvider_def openai_formatAssistantMessage_def openai_formatToolResults_def
          unknown_payload unknown_call_def)
qed

subsection \<open>The iteration cap\<close>

text \<open>
  Claim C2, as stated, has the loop make exactly \<open>n\<close> round-trips and then raise the
  iteration-exhaustion error whenever every response requests a tool call. With a cap of
  2, a return store and a model whose every response calls the store and a further tool,
  the loop makes one round-trip and returns the stored value.
\<close>

theorem iteration_cap_counterexample:
  "map_option fst
     (runToolLoop 2 (always (mockLLMResponse [] (Some store_and_more))) OpenAIProvider
        (Text ''Who is it?'') store_tools (defaultConfig\<lparr>maxIterations := Some 2\<rparr>)
        None (Some store_get) None None None None)
   = Some (Inr (Obj [(''name'', Str ''Ann'')]))
   \<and> map_option (length \<circ> sent \<circ> snd)
     (runToolLoop 2 (always (mockLLMResponse [] (Some store_and_more))) OpenAIProvider
        (Text ''Who is it?'') store_tools (defaultConfig\<lparr>maxIterations := Some 2\<rparr>)
        None (Some store_get) None None None None)
   = Some 1"
proof -
  let ?pf = "always (mockLLMResponse [] (Some store_and_more))
               :: (openai_message list openai_body request,
                   (openai_chunk, openai_data) provider_response, jsval option) platform"
  let ?cfg = "defaultConfig\<lparr>maxIterations := Some 2\<rparr>"
  let ?st = "\<lparr>messages = [OpenAIUser (Text ''Who is it?'')], iterations = 0,
              world = (None :: jsval option),
              sent = ([] :: openai_message list openai_body request list)\<rparr>"
  let ?pr = "\<lparr>pr_content = [], pr_toolCalls = map to_info store_and_more\<rparr>"
  have f: "fetch ?pf (buildRequest OpenAIProvider (request_params ?cfg store_tools None None (messages ?st)))
             (world ?st) = (Response (mock_response [] (Some store_and_more)), None)"
    by (simp add: always_fetch mockLLMResponse_def)
  have p: "parseResponse OpenAIProvider (resp_payload (mock_response [] (Some store_and_more))) (stream ?cfg)
             = Inr ?pr"
    by (simp add: mock_parsed)
  have ne: "filter complete (pr_toolCalls ?pr) \<noteq> []"
    by (simp add: store_and_more_def complete_to_info)
  have e: "exec_tool_calls (JSON_parse ?pf) (maxToolResultLength ?cfg) store_tools
             (filter complete (pr_toolCalls ?pr)) None
           = ([\<lparr>tr_id = ''call1'', tr_name = ''return_value'', tr_result = ''Value stored successfully''\<rparr>,
               \<lparr>tr_id = ''call2'', tr_name = ''lookup'', tr_result = ''OK''\<rparr>],
              Some (Obj [(''name'', Str ''Ann'')]))"
    using store_batch by (simp add: always_parse defaultConfig_def)
  note body = loop_body_batch [where pf = ?pf and provider = OpenAIProvider and cfg = ?cfg
      and tools = store_tools and schema = None and systemPrompt = None and st = ?st and pr = ?pr
      and returnStore = "Some store_get" and response = "mock_response [] (Some store_and_more)"
      and w_fetched = None and w' = "Some (Obj [(''name'', Str ''Ann'')])", OF f mock_ok p ne e]
  have it: "case maxIterations ?cfg of None \<Rightarrow> True | Some cap \<Rightarrow> iterations ?st < cap"
    by simp
  have two: "(2::nat) = Suc 1" by simp
  have "\<exists>st'. run_loop (Suc 1) ?pf OpenAIProvider ?cfg store_tools None (Some store_get) None ?st
          = Some (Inr (Obj [(''name'', Str ''Ann'')]), st') \<and> length (sent st') = 1"
    unfolding run_loop_step [OF it] body
    by (simp add: Let_def store_get_def)
  then show ?thesis
    unfolding initial_state two by auto
qed

text \<open>
  Claim C2, amended. Let every response be an \<^verbatim>\<open>ok\<close> response that the provider
  parses and that requests at least one complete tool call (an id and a name), and let
  the return store, if there is one, stay empty; \<open>I\<close> is an invariant of the world that
  the platform and the tools keep and under which the store is empty. Then with a cap
  \<open>n\<close> the loop, given fuel for \<open>n\<close> passes, sends exactly \<open>n\<close> requests, counts \<open>n\<close>
  iterations whatever the number of tool calls in each, and raises the error whose message
  is \<^verbatim>\<open>Max iterations (n) reached without completion\<close>; without a cap the loop does
  not end, whatever the fuel. And when a loop without a cap ends, it ends with an error
  other than iteration exhaustion, or on a response without complete tool calls (the
  history ends with the assistant message of a tool-free turn), or with the value of the
  filled return store.
\<close>

theorem iteration_cap:
  "((\<forall>req w. I w \<longrightarrow>
        (\<exists>response w1 pr. fetch pf req w = (Response response, w1) \<and> I w1 \<and> resp_ok response
           \<and> parseResponse provider (resp_payload response) (stream cfg) = Inr pr
           \<and> filter complete (pr_toolCalls pr) \<noteq> []))
     \<and> (\<forall>t \<in> set tools. \<forall>args w. I w \<longrightarrow> I (snd (tool_impl t args w)))
     \<and> (\<forall>get w. returnStore = Some get \<longrightarrow> I w \<longrightarrow> get w = Undefined)
     \<and> I w0
    \<longrightarrow> (case maxIterations cfg of
          Some n \<Rightarrow>
            n \<le> fuel \<longrightarrow>
              (\<exists>st'. runToolLoop fuel pf provider promptText tools cfg schema returnStore
                          systemPrompt systemImages history w0
                        = Some (Inl (MaxIterationsReached n), st')
                     \<and> iterations st' = n \<and> length (sent st') = n
                     \<and> error_message (MaxIterationsReached n)
                         = ''Max iterations ('' @ digits n @ '') reached without completion'')
        | None \<Rightarrow>
            runToolLoop fuel pf provider promptText tools cfg schema returnStore
              systemPrompt systemImages history w0 = None))
   \<and> (maxIterations cfg = None
        \<and> runToolLoop fuel pf provider promptText tools cfg schema returnStore
              systemPrompt systemImages history w0 = Some (r, st_end)
      \<longrightarrow> (\<exists>e. r = Inl e \<and> (\<forall>k. e \<noteq> MaxIterationsReached k))
          \<or> (\<exists>content msgs. messages st_end = msgs @ [formatAssistantMessage provider content []])
          \<or> (\<exists>get. returnStore = Some get \<and> r = Inr (get (world st_end))
                 \<and> get (world st_end) \<noteq> Undefined))"
proof (intro conjI impI)
  assume h: "(\<forall>req w. I w \<longrightarrow>
        (\<exists>response w1 pr. fetch pf req w = (Response response, w1) \<and> I w1 \<and> resp_ok response
           \<and> parseResponse provider (resp_payload response) (stream cfg) = Inr pr
           \<and> filter complete (pr_toolCalls pr) \<noteq> []))
     \<and> (\<forall>t \<in> set tools. \<forall>args w. I w \<longrightarrow> I (snd (tool_impl t args w)))
     \<and> (\<forall>get w. returnStore = Some get \<longrightarrow> I w \<longrightarrow> get w = Undefined)
     \<and> I w0"
  let ?st0 = "\<lparr>messages = (case history of None \<Rightarrow> [] | Some h \<Rightarrow> h)
                   @ [formatUserMessage provider promptText systemImages],
               iterations = 0, world = w0, sent = []\<rparr>"
  from h have responds: "\<forall>req w. I w \<longrightarrow>
        (\<exists>response w1 pr. fetch pf req w = (Response response, w1) \<and> I w1 \<and> resp_ok response
           \<and> parseResponse provider (resp_payload response) (stream cfg) = Inr pr
           \<and> filter complete (pr_toolCalls pr) \<noteq> [])"
    and tools_inv: "\<forall>t \<in> set tools. \<forall>args w. I w \<longrightarrow> I (snd (tool_impl t args w))"
    and store_empty: "\<forall>get w. returnStore = Some get \<longrightarrow> I w \<longrightarrow> get w = Undefined"
    and init: "I (world ?st0)"
    by simp_all
  show "case maxIterations cfg of
          Some n \<Rightarrow>
            n \<le> fuel \<longrightarrow>
              (\<exists>st'. runToolLoop fuel pf provider promptText tools cfg schema returnStore
                          systemPrompt systemImages history w0
                        = Some (Inl (MaxIterationsReached n), st')
                     \<and> iterations st' = n \<and> length (sent st') = n
                     \<and> error_message (MaxIterationsReached n)
                         = ''Max iterations ('' @ digits n @ '') reached without completion'')
        | None \<Rightarrow>
            runToolLoop fuel pf provider promptText tools cfg schema returnStore
              systemPrompt systemImages history w0 = None"
  proof (cases "maxIterations cfg")
    case None
    then show ?thesis
      using run_loop_unbounded [OF responds tools_inv store_empty None init, of fuel schema systemPrompt]
      by (simp add: runToolLoop_def)
  next
    case (Some n)
    show ?thesis
    proof (simp add: Some, intro impI)
      assume "n \<le> fuel"
      then have "n - iterations ?st0 \<le> fuel" "iterations ?st0 \<le> n" by simp_all
      from run_loop_to_cap [OF responds tools_inv store_empty Some init this(2) this(1),
             of schema systemPrompt]
      show "\<exists>st'. runToolLoop fuel pf provider promptText tools cfg schema returnStore
                          systemPrompt systemImages history w0
                        = Some (Inl (MaxIterationsReached n), st')
                     \<and> iterations st' = n \<and> length (sent st') = n"
        by (simp add: runToolLoop_def)
    qed
  qed
next
  assume "maxIterations cfg = None
        \<and> runToolLoop fuel pf provider promptText tools cfg schema returnStore
              systemPrompt systemImages history w0 = Some (r, st_end)"
  then have c: "maxIterations cfg = None"
    and e: "run_loop fuel pf provider cfg tools schema returnStore systemPrompt
              \<lparr>messages = (case history of None \<Rightarrow> [] | Some h \<Rightarrow> h)
                   @ [formatUserMessage provider promptText systemImages],
               iterations = 0, world = w0, sent = []\<rparr> = Some (r, st_end)"
    by (simp_all add: runToolLoop_def)
  show "(\<exists>e. r = Inl e \<and> (\<forall>k. e \<noteq> MaxIterationsReached k))
          \<or> (\<exists>content msgs. messages st_end = msgs @ [formatAssistantMessage provider content []])
          \<or> (\<exists>get. returnStore = Some get \<and> r = Inr (get (world st_end))
                 \<and> get (world st_end) \<noteq> Undefined)"
    using c e by (rule run_loop_ends)
qed

text \<open>
  The scenario of the tests: a tool that the model always requests again. With the cap 2
  the loop raises the error that names 2 after exactly 2 requests; without a cap it goes
  on for as long as there is fuel. A model that answers at once ends the loop without a
  cap on that tool-free response.
\<close>

theorem iteration_cap_witness:
  "map_option fst
     (runToolLoop 2 (always (mockLLMResponse [] (Some loop_call))) OpenAIProvider
        (Text ''Loop forever'') [any_tool ''loop'' (Str ''continue'')]
        (defaultConfig\<lparr>maxIterations := Some 2\<rparr>) None None None None None ())
   = Some (Inl (MaxIterationsReached 2))
   \<and> map_option (length \<circ> sent \<circ> snd)
     (runToolLoop 2 (always (mockLLMResponse [] (Some loop_call))) OpenAIProvider
        (Text ''Loop forever'') [any_tool ''loop'' (Str ''continue'')]
        (defaultConfig\<lparr>maxIterations := Some 2\<rparr>) None None None None None ())
   = Some 2
   \<and> error_message (MaxIterationsReached 2) = ''Max iterations (2) reached without completion''
   \<and> runToolLoop 9 (always (mockLLMResponse [] (Some loop_call))) OpenAIProvider
        (Text ''Loop forever'') [any_tool ''loop'' (Str ''continue'')]
        defaultConfig None None None None None ()
     = None
   \<and> (\<exists>content msgs.
         map_option (messages \<circ> snd)
           (runToolLoop 1 (always (mockLLMResponse ''Hello'' None)) OpenAIProvider
              (Text ''Say hello'') ([] :: unit tool_function list)
              defaultConfig None None None None None ())
         = Some (msgs @ [formatAssistantMessage OpenAIProvider content []]))"
proof -
  let ?pf = "always (mockLLMResponse [] (Some loop_call))
               :: (openai_message list openai_body request,
                   (openai_chunk, openai_data) provider_response, unit) platform"
  let ?tools = "[any_tool ''loop'' (Str ''continue'')] :: unit tool_function list"
  let ?cfg = "defaultConfig\<lparr>maxIterations := Some 2\<rparr>"
  let ?I = "\<lambda>w :: unit. True"
  have responds: "\<forall>req w. ?I w \<longrightarrow>
        (\<exists>response w1 pr. fetch ?pf req w = (Response response, w1) \<and> ?I w1 \<and> resp_ok response
           \<and> parseResponse OpenAIProvider (resp_payload response) s = Inr pr
           \<and> filter complete (pr_toolCalls pr) \<noteq> [])" for s
    by (simp add: always_fetch mockLLMResponse_def mock_ok mock_parsed loop_call_def complete_to_info)
  have tools_inv: "\<forall>t \<in> set ?tools. \<forall>args w. ?I w \<longrightarrow> ?I (snd (tool_impl t args w))"
    by simp
  have store_empty: "\<forall>get w. (None :: (unit \<Rightarrow> jsval) option) = Some get \<longrightarrow> ?I w \<longrightarrow> get w = Undefined"
    by simp
  have hyps: "(\<forall>req w. ?I w \<longrightarrow>
        (\<exists>response w1 pr. fetch ?pf req w = (Response response, w1) \<and> ?I w1 \<and> resp_ok response
           \<and> parseResponse OpenAIProvider (resp_payload response) s = Inr pr
           \<and> filter complete (pr_toolCalls pr) \<noteq> []))
     \<and> (\<forall>t \<in> set ?tools. \<forall>args w. ?I w \<longrightarrow> ?I (snd (tool_impl t args w)))
     \<and> (\<forall>get w. (None :: (unit \<Rightarrow> jsval) option) = Some get \<longrightarrow> ?I w \<longrightarrow> get w = Undefined)
     \<and> ?I ()" for s
    using responds tools_inv store_empty by simp
  note capped = iteration_cap [where I = ?I and pf = ?pf and provider = OpenAIProvider
      and cfg = ?cfg and tools = ?tools and returnStore = None and ?w0.0 = "()" and fuel = 2
      and promptText = "Text ''Loop forever''" and schema = None and systemPrompt = None
      and systemImages = None and history = None, THEN conjunct1, rule_format, OF hyps]
  note unbounded = iteration_cap [where I = ?I and pf = ?pf and provider = OpenAIProvider
      and cfg = defaultConfig and tools = ?tools and returnStore = None and ?w0.0 = "()" and fuel = 9
      and promptText = "Text ''Loop forever''" and schema = None and systemPrompt = None
      and systemImages = None and history = None, THEN conjunct1, rule_format, OF hyps]
  from capped obtain st' where
    c: "runToolLoop 2 ?pf OpenAIProvider (Text ''Loop forever'') ?tools ?cfg None None None None None ()
          = Some (Inl (MaxIterationsReached 2), st')"
    and l: "length (sent st') = 2"
    and m: "error_message (MaxIterationsReached 2)
              = ''Max iterations ('' @ digits 2 @ '') reached without completion''"
    by auto
  have u: "runToolLoop 9 ?pf OpenAIProvider (Text ''Loop forever'') ?tools defaultConfig
             None None None None None () = None"
    using unbounded by (simp add: defaultConfig_def)
  let ?hello = "always (mockLLMResponse ''Hello'' None)
               :: (openai_message list openai_body request,
                   (openai_chunk, openai_data) provider_response, unit) platform"
  let ?none = "[] :: unit tool_function list"
  let ?st = "\<lparr>messages = [OpenAIUser (Text ''Say hello'')], iterations = 0, world = (),
              sent = ([] :: openai_message list openai_body request list)\<rparr>"
  have f: "fetch ?hello (buildRequest OpenAIProvider
                          (request_params defaultConfig ?none None None (messages ?st)))
             (world ?st) = (Response (mock_response ''Hello'' None), ())"
    by (simp add: always_fetch mockLLMResponse_def)
  have p: "parseResponse OpenAIProvider (resp_payload (mock_response ''Hello'' None))
             (stream defaultConfig) = Inr \<lparr>pr_content = ''Hello'', pr_toolCalls = []\<rparr>"
    by (simp add: mock_parsed)
  note last = loop_body_final [where pf = ?hello and provider = OpenAIProvider and cfg = defaultConfig
      and tools = ?none and systemPrompt = None and st = ?st
      and response = "mock_response ''Hello'' None" and w_fetched = "()"
      and pr = "\<lparr>pr_content = ''Hello'', pr_toolCalls = []\<rparr>" and returnStore = None,
      OF f mock_ok p]
  have it: "case maxIterations defaultConfig of None \<Rightarrow> True | Some cap \<Rightarrow> iterations ?st < cap"
    by (simp add: defaultConfig_def)
  have one: "(1::nat) = Suc 0" by simp
  obtain st_end where
    h: "runToolLoop 1 ?hello OpenAIProvider (Text ''Say hello'') ?none defaultConfig
          None None None None None () = Some (Inr (Str ''Hello''), st_end)"
    unfolding initial_state one run_loop_step [OF it] using last by simp
  have d: "maxIterations defaultConfig = None" by (simp add: defaultConfig_def)
  from iteration_cap [where pf = ?hello and provider = OpenAIProvider and cfg = defaultConfig
      and tools = ?none and returnStore = None and ?w0.0 = "()" and fuel = 1
      and promptText = "Text ''Say hello''" and schema = None and systemPrompt = None
      and systemImages = None and history = None and r = "Inr (Str ''Hello'')" and st_end = st_end
      and I = ?I, THEN conjunct2, rule_format, OF conjI [OF d h]]
  have "\<exists>content msgs. messages st_end = msgs @ [formatAssistantMessage OpenAIProvider content []]"
    by simp
  then show ?thesis
    using c l m u h by (auto simp: digits.simps)
qed

subsection \<open>The parser of a flat string-map schema\<close>




lemma obj_get_Undefined_absent:
  "k \<notin> fst ` set kvs \<Longrightarrow> obj_get kvs k = Undefined"
  by (induction kvs) auto

lemma typeof_string: "typeof v = ''string'' \<longleftrightarrow> (\<exists>s. v = Str s)"
  by (cases v) auto







subsection \<open>Responses without content\<close>



subsection \<open>The history array under \<^verbatim>\<open>buildRequest\<close>\<close>

lemma openai_buildRequest_heap:
  assumes valid: "bp_messages params < length h"
  shows "fst (openai_buildRequest h params)
           = h @ [case bp_systemPrompt params of
                    None \<Rightarrow> h ! bp_messages params
                  | Some sp \<Rightarrow> OpenAISystem sp # h ! bp_messages params]"
    and "ob_messages (req_body (snd (openai_buildRequest h params))) = length h"
  by (auto simp: openai_buildRequest_def array_copy_def unshift_def Let_def split: option.splits)

lemma ollama_buildRequest_heap:
  assumes valid: "bp_messages params < length h"
  shows "fst (ollama_buildRequest h params)
           = h @ [case bp_systemPrompt params of
                    None \<Rightarrow> h ! bp_messages params
                  | Some sp \<Rightarrow> OllamaSystem (extractText sp) # h ! bp_messages params]"
    and "olb_messages (req_body (snd (ollama_buildRequest h params))) = length h"
  by (auto simp: ollama_buildRequest_def array_copy_def unshift_def Let_def split: option.splits)

text \<open>
  Claim C10. \<^verbatim>\<open>buildRequest\<close> leaves the array of messages it is given as it was. For
  the OpenAI and the Ollama provider the heap after the call holds every array that was
  there, unchanged, the caller's among them; the messages of the body are another array,
  which has the caller's messages with the system message in front when there is a system
  prompt. The Anthropic provider leaves the heap as it is, hands the caller's array itself
  on as the messages of the body and puts the system prompt into the field \<^verbatim>\<open>system\<close>.
  So the request the loop builds from its history has the system message once, in front,
  and the history itself never has it. The hypothesis is that the address the caller
  gives is the address of an array.
\<close>

theorem buildRequest_keeps_history:
  "(bp_messages params < length oh \<longrightarrow>
      fst (openai_buildRequest oh params) ! bp_messages params = oh ! bp_messages params
      \<and> take (length oh) (fst (openai_buildRequest oh params)) = oh
      \<and> ob_messages (req_body (snd (openai_buildRequest oh params))) \<noteq> bp_messages params
      \<and> fst (openai_buildRequest oh params)
            ! ob_messages (req_body (snd (openai_buildRequest oh params)))
          = (case bp_systemPrompt params of
               None \<Rightarrow> oh ! bp_messages params
             | Some sp \<Rightarrow> OpenAISystem sp # oh ! bp_messages params))
   \<and> (bp_messages params < length lh \<longrightarrow>
      fst (ollama_buildRequest lh params) ! bp_messages params = lh ! bp_messages params
      \<and> take (length lh) (fst (ollama_buildRequest lh params)) = lh
      \<and> olb_messages (req_body (snd (ollama_buildRequest lh params))) \<noteq> bp_messages params
      \<and> fst (ollama_buildRequest lh params)
            ! olb_messages (req_body (snd (ollama_buildRequest lh params)))
          = (case bp_systemPrompt params of
               None \<Rightarrow> lh ! bp_messages params
             | Some sp \<Rightarrow> OllamaSystem (extractText sp) # lh ! bp_messages params))
   \<and> fst (anthropic_buildRequest ah params) = ah
   \<and> ab_messages (req_body (snd (anthropic_buildRequest ah params))) = bp_messages params
   \<and> ab_system (req_body (snd (anthropic_buildRequest ah params)))
       = (case bp_systemPrompt params of
            None \<Rightarrow> None
          | Some (Text s) \<Rightarrow> Some (Text s)
          | Some (Parts ps) \<Rightarrow> Some (Parts (filter isTextPart ps)))
   \<and> ob_messages (req_body (openai_request lparams))
       = (case bp_systemPrompt lparams of
            None \<Rightarrow> bp_messages lparams
          | Some sp \<Rightarrow> OpenAISystem sp # bp_messages lparams)"
proof (intro conjI impI)
  assume v: "bp_messages params < length oh"
  note h = openai_buildRequest_heap [OF v]
  show "fst (openai_buildRequest oh params) ! bp_messages params = oh ! bp_messages params"
    using v by (simp add: h nth_append)
  show "take (length oh) (fst (openai_buildRequest oh params)) = oh"
    by (simp add: h)
  show "ob_messages (req_body (snd (openai_buildRequest oh params))) \<noteq> bp_messages params"
    using v by (simp add: h)
  show "fst (openai_buildRequest oh params)
            ! ob_messages (req_body (snd (openai_buildRequest oh params)))
          = (case bp_systemPrompt params of
               None \<Rightarrow> oh ! bp_messages params
             | Some sp \<Rightarrow> OpenAISystem sp # oh ! bp_messages params)"
    by (simp add: h)
next
  assume v: "bp_messages params < length lh"
  note h = ollama_buildRequest_heap [OF v]
  show "fst (ollama_buildRequest lh params) ! bp_messages params = lh ! bp_messages params"
    using v by (simp add: h nth_append)
  show "take (length lh) (fst (ollama_buildRequest lh params)) = lh"
    by (simp add: h)
  show "olb_messages (req_body (snd (ollama_buildRequest lh params))) \<noteq> bp_messages params"
    using v by (simp add: h)
  show "fst (ollama_buildRequest lh params)
            ! olb_messages (req_body (snd (ollama_buildRequest lh params)))
          = (case bp_systemPrompt params of
               None \<Rightarrow> lh ! bp_messages params
             | Some sp \<Rightarrow> OllamaSystem (extractText sp) # lh ! bp_messages params)"
    by (simp add: h)
next
  show "fst (anthropic_buildRequest ah params) = ah"
    by (simp add: anthropic_buildRequest_def Let_def)
  show "ab_messages (req_body (snd (anthropic_buildRequest ah params))) = bp_messages params"
    by (simp add: anthropic_buildRequest_def Let_def)
  show "ab_system (req_body (snd (anthropic_buildRequest ah params)))
       = (case bp_systemPrompt params of
            None \<Rightarrow> None
          | Some (Text s) \<Rightarrow> Some (Text s)
          | Some (Parts ps) \<Rightarrow> Some (Parts (filter isTextPart ps)))"
    by (simp add: anthropic_buildRequest_def Let_def)
  have "ob_messages (req_body (openai_request lparams))
          = fst (openai_buildRequest [bp_messages lparams]
                   \<lparr>bp_apiUrl = bp_apiUrl lparams, bp_apiKey = bp_apiKey lparams,
                    bp_modelName = bp_modelName lparams, bp_messages = 0,
                    bp_tools = bp_tools lparams, bp_stream = bp_stream lparams,
                    bp_temperature = bp_temperature lparams, bp_maxTokens = bp_maxTokens lparams,
                    bp_systemPrompt = bp_systemPrompt lparams, bp_schema = bp_schema lparams\<rparr>)
            ! ob_messages (req_body (snd (openai_buildRequest [bp_messages lparams]
                   \<lparr>bp_apiUrl = bp_apiUrl lparams, bp_apiKey = bp_apiKey lparams,
                    bp_modelName = bp_modelName lparams, bp_messages = 0,
                    bp_tools = bp_tools lparams, bp_stream = bp_stream lparams,
                    bp_temperature = bp_temperature lparams, bp_maxTokens = bp_maxTokens lparams,
                    bp_systemPrompt = bp_systemPrompt lparams, bp_schema = bp_schema lparams\<rparr>)))"
    by (simp add: openai_request_def read_openai_body_def split: prod.splits)
  then show "ob_messages (req_body (openai_request lparams))
       = (case bp_systemPrompt lparams of
            None \<Rightarrow> bp_messages lparams
          | Some sp \<Rightarrow> OpenAISystem sp # bp_messages lparams)"
    by (simp add: openai_buildRequest_heap split: option.splits)
qed

text \<open>
  A history of one user message and the system prompt \<^verbatim>\<open>Be brief\<close>: after the call the
  history is the one user message, and the messages of the body are the system message
  and the user message.
\<close>

theorem buildRequest_keeps_history_witness:
  "fst (openai_buildRequest [[OpenAIUser (Text ''Hello'')]] system_params) ! 0
     = [OpenAIUser (Text ''Hello'')]
   \<and> fst (openai_buildRequest [[OpenAIUser (Text ''Hello'')]] system_params)
       ! ob_messages (req_body (snd (openai_buildRequest [[OpenAIUser (Text ''Hello'')]] system_params)))
     = [OpenAISystem (Text ''Be brief''), OpenAIUser (Text ''Hello'')]
   \<and> fst (ollama_buildRequest [[OllamaUser ''Hello'' None]] system_params) ! 0
     = [OllamaUser ''Hello'' None]
   \<and> fst (ollama_buildRequest [[OllamaUser ''Hello'' None]] system_params)
       ! olb_messages (req_body (snd (ollama_buildRequest [[OllamaUser ''Hello'' None]] system_params)))
     = [OllamaSystem ''Be brief'', OllamaUser ''Hello'' None]"
proof -
  have v: "bp_messages system_params < length [[OpenAIUser (Text ''Hello'')]]"
    by (simp add: system_params_def)
  have w: "bp_messages system_params < length [[OllamaUser ''Hello'' None]]"
    by (simp add: system_params_def)
  note o = buildRequest_keeps_history [where params = system_params
      and oh = "[[OpenAIUser (Text ''Hello'')]]", THEN conjunct1, rule_format, OF v]
  note l = buildRequest_keeps_history [where params = system_params
      and lh = "[[OllamaUser ''Hello'' None]]", THEN conjunct2, THEN conjunct1, rule_format, OF w]
  have z: "bp_messages system_params = 0" "bp_systemPrompt system_params = Some (Text ''Be brief'')"
    by (simp_all add: system_params_def)
  show ?thesis
    using o l by (simp add: z)
qed

end
